theory Spec2Isabelle
  imports Complex_Main
begin

section \<open>Go values\<close>

text \<open>
  A Go slice is either \<^verbatim>\<open>nil\<close> or holds a sequence of elements; a non-nil slice may be
  empty (\<^verbatim>\<open>[]string{}\<close>). The two are kept apart because \<^verbatim>\<open>Feedback\<close> compares its
  slices with \<^verbatim>\<open>nil\<close>, while \<^verbatim>\<open>Tag\<close> and \<^verbatim>\<open>Color\<close> take \<^verbatim>\<open>len\<close>. \<open>None\<close> is the nil
  slice, and a pointer that may be nil (\<^verbatim>\<open>*big.Int\<close>, a returned envelope) is an option too.
\<close>

type_synonym 'a slice = "'a list option"

definition len :: "'a slice \<Rightarrow> nat" where
  "len s = (case s of None \<Rightarrow> 0 | Some xs \<Rightarrow> length xs)"

text \<open>
  A Go \<^verbatim>\<open>error\<close> value. The operations of \<^verbatim>\<open>requests.go\<close> build errors with
  \<^verbatim>\<open>errors.New\<close> only; every other error reaches them from a collaborator: the transport
  (\<^verbatim>\<open>commonHTTPRequest\<close>) or \<^verbatim>\<open>json.Unmarshal\<close>. The model keeps the origin of such an error
  and its text.
\<close>

datatype error =
    ErrorsNew string
  | TransportError string
  | JsonError string

section \<open>Domain types of requests.go\<close>

text \<open>
  One record per struct, field for field. An anonymous nested struct gets the name of the
  path that leads to it. Go's \<^verbatim>\<open>int\<close> fields are only stored, never computed with, and are
  integers here; a \<^verbatim>\<open>float32\<close> or \<^verbatim>\<open>float64\<close> field holds the real number the (finite) float
  denotes; \<^verbatim>\<open>json.Number\<close> is a string type.
\<close>

record InfoResp_Results =
  MaxImageSize :: int
  DefaultLanguage :: string
  MaxVideoSize :: int
  MaxImageBytes :: int
  DefaultModel :: string
  MaxVideoBytes :: int
  MaxVideoDuration :: int
  MaxVideoBatchSize :: int
  MinVideoSize :: int
  MinImageSize :: int
  MaxBatchSize :: int
  APIVersion :: real

record InfoResp =
  StatusCode :: string
  StatusMessage :: string
  Results :: InfoResp_Results

record TagRequest =
  URLs :: "string slice"
  LocalIDs :: "string slice"
  Model :: string

record TagResp_Meta_Tag =
  Timestamp :: string
  Model :: string
  Config :: string

record TagResp_Meta =
  Tag :: TagResp_Meta_Tag

record TagResult_Result_Tag =
  Classes :: "string slice"
  CatIDs :: "string slice"
  Probs :: "real slice"

record TagResult_Result =
  Tag :: TagResult_Result_Tag

record TagResult =
  DocID :: "int option"
  URL :: string
  StatusCode :: string
  StatusMessage :: string
  LocalID :: string
  Result :: TagResult_Result
  DocIDString :: string

record TagResp =
  StatusCode :: string
  StatusMessage :: string
  Meta :: TagResp_Meta
  Results :: "TagResult slice"

record ColorRequest =
  URLs :: "string slice"
  LocalIDs :: "string slice"

record Color_W3C =
  Hex :: string
  Name :: string

record Color =
  W3C :: Color_W3C
  Hex :: string
  Density :: real

record ColorResp_Result =
  DocID :: "int option"
  URL :: string
  DocIDString :: string
  Colors :: "Color slice"

record ColorResp =
  StatusCode :: string
  StatusMessage :: string
  Results :: "ColorResp_Result slice"

record FeedbackForm =
  DocIDs :: "string slice"
  URLs :: "string slice"
  AddTags :: "string slice"
  RemoveTags :: "string slice"
  DissimilarDocIDs :: "string slice"
  SimilarDocIDs :: "string slice"
  SearchClick :: "string slice"

record FeedbackResp =
  StatusCode :: string
  StatusMessage :: string

subsection \<open>Zero values\<close>

text \<open>
  \<^verbatim>\<open>new(T)\<close> allocates a \<^verbatim>\<open>T\<close> whose fields are all zero: the empty string, 0, the nil
  slice, the nil pointer.
\<close>

definition new_InfoResp :: InfoResp where
  "new_InfoResp =
     \<lparr>InfoResp.StatusCode = [], InfoResp.StatusMessage = [],
      InfoResp.Results =
        \<lparr>MaxImageSize = 0, DefaultLanguage = [], MaxVideoSize = 0, MaxImageBytes = 0,
         DefaultModel = [], MaxVideoBytes = 0, MaxVideoDuration = 0, MaxVideoBatchSize = 0,
         MinVideoSize = 0, MinImageSize = 0, MaxBatchSize = 0, APIVersion = 0\<rparr>\<rparr>"

definition new_TagResp :: TagResp where
  "new_TagResp =
     \<lparr>TagResp.StatusCode = [], TagResp.StatusMessage = [],
      TagResp.Meta =
        \<lparr>TagResp_Meta.Tag =
           \<lparr>TagResp_Meta_Tag.Timestamp = [], TagResp_Meta_Tag.Model = [],
            TagResp_Meta_Tag.Config = []\<rparr>\<rparr>,
      TagResp.Results = None\<rparr>"

definition new_TagResult :: TagResult where
  "new_TagResult =
     \<lparr>TagResult.DocID = None, TagResult.URL = [], TagResult.StatusCode = [],
      TagResult.StatusMessage = [], TagResult.LocalID = [],
      TagResult.Result =
        \<lparr>TagResult_Result.Tag =
           \<lparr>TagResult_Result_Tag.Classes = None, TagResult_Result_Tag.CatIDs = None,
            TagResult_Result_Tag.Probs = None\<rparr>\<rparr>,
      TagResult.DocIDString = []\<rparr>"

definition new_ColorResp :: ColorResp where
  "new_ColorResp =
     \<lparr>ColorResp.StatusCode = [], ColorResp.StatusMessage = [], ColorResp.Results = None\<rparr>"

definition new_ColorResp_Result :: ColorResp_Result where
  "new_ColorResp_Result =
     \<lparr>ColorResp_Result.DocID = None, ColorResp_Result.URL = [],
      ColorResp_Result.DocIDString = [], ColorResp_Result.Colors = None\<rparr>"

definition new_Color :: Color where
  "new_Color =
     \<lparr>Color.W3C = \<lparr>Color_W3C.Hex = [], Color_W3C.Name = []\<rparr>, Color.Hex = [],
      Color.Density = 0\<rparr>"

definition new_FeedbackResp :: FeedbackResp where
  "new_FeedbackResp = \<lparr>FeedbackResp.StatusCode = [], FeedbackResp.StatusMessage = []\<rparr>"

definition new_TagRequest :: TagRequest where
  "new_TagRequest =
     \<lparr>TagRequest.URLs = None, TagRequest.LocalIDs = None, TagRequest.Model = []\<rparr>"

section \<open>The collaborators\<close>

text \<open>
  \<^verbatim>\<open>client.commonHTTPRequest(body, endpoint, method, multipart)\<close> is the transport. It is
  defined outside \<^verbatim>\<open>requests.go\<close> and returns \<^verbatim>\<open>([]byte, error)\<close>; the operations are
  parametrised by it. Its first argument is an \<^verbatim>\<open>interface{}\<close> that \<^verbatim>\<open>requests.go\<close> fills
  with \<^verbatim>\<open>nil\<close> or with one of the three request structs.

  \<^verbatim>\<open>json.Unmarshal(res, v)\<close> is Go's standard decoder. It writes into the struct behind
  the pointer \<^verbatim>\<open>v\<close> and returns an error or nil; the operations are parametrised by it too:
  it maps the bytes and the struct as allocated to the struct as left behind and the error.

  Each operation calls each collaborator at most once, so a function stands for the
  collaborator's answer at that call. To state which calls an operation makes, every
  operation also returns the sequence of its calls.
\<close>

datatype body =
    NilBody
  | TagBody TagRequest
  | ColorBody ColorRequest
  | FeedbackBody FeedbackForm

type_synonym transport = "body \<Rightarrow> string \<Rightarrow> string \<Rightarrow> bool \<Rightarrow> char slice \<times> error option"

type_synonym 'r unmarshal = "char slice \<Rightarrow> 'r \<Rightarrow> 'r \<times> error option"

datatype call =
    CommonHTTPRequest body string string bool
  | JsonUnmarshal "char slice"

type_synonym 'r returned = "('r option \<times> error option) \<times> call list"

section \<open>The operations\<close>

text \<open>
  \<^verbatim>\<open>func (client *Client) Info() (*InfoResp, error)\<close>
\<close>

definition Info :: "transport \<Rightarrow> InfoResp unmarshal \<Rightarrow> InfoResp returned" where
  "Info commonHTTPRequest json_Unmarshal =
     (case commonHTTPRequest NilBody ''info'' ''GET'' False of
        (res, err) \<Rightarrow>
          if err \<noteq> None then
            ((None, err), [CommonHTTPRequest NilBody ''info'' ''GET'' False])
          else
            (case json_Unmarshal res new_InfoResp of
               (info, err') \<Rightarrow>
                 ((Some info, err'),
                  [CommonHTTPRequest NilBody ''info'' ''GET'' False, JsonUnmarshal res])))"

text \<open>
  \<^verbatim>\<open>func (client *Client) Tag(req TagRequest) (*TagResp, error)\<close>
\<close>

definition Tag :: "transport \<Rightarrow> TagResp unmarshal \<Rightarrow> TagRequest \<Rightarrow> TagResp returned" where
  "Tag commonHTTPRequest json_Unmarshal req =
     (if len (TagRequest.URLs req) < 1 then
        ((None, Some (ErrorsNew ''Requires at least one url'')), [])
      else
        (case commonHTTPRequest (TagBody req) ''tag'' ''POST'' False of
           (res, err) \<Rightarrow>
             if err \<noteq> None then
               ((None, err), [CommonHTTPRequest (TagBody req) ''tag'' ''POST'' False])
             else
               (case json_Unmarshal res new_TagResp of
                  (tagres, err') \<Rightarrow>
                    ((Some tagres, err'),
                     [CommonHTTPRequest (TagBody req) ''tag'' ''POST'' False,
                      JsonUnmarshal res]))))"

text \<open>
  \<^verbatim>\<open>func (client *Client) Color(req ColorRequest) (*ColorResp, error)\<close>
\<close>

definition Color :: "transport \<Rightarrow> ColorResp unmarshal \<Rightarrow> ColorRequest \<Rightarrow> ColorResp returned" where
  "Color commonHTTPRequest json_Unmarshal req =
     (if len (ColorRequest.URLs req) < 1 then
        ((None, Some (ErrorsNew ''Requires at least one url'')), [])
      else
        (case commonHTTPRequest (ColorBody req) ''color'' ''POST'' False of
           (res, err) \<Rightarrow>
             if err \<noteq> None then
               ((None, err), [CommonHTTPRequest (ColorBody req) ''color'' ''POST'' False])
             else
               (case json_Unmarshal res new_ColorResp of
                  (colorResponse, err') \<Rightarrow>
                    ((Some colorResponse, err'),
                     [CommonHTTPRequest (ColorBody req) ''color'' ''POST'' False,
                      JsonUnmarshal res]))))"

text \<open>
  \<^verbatim>\<open>func (client *Client) Feedback(form FeedbackForm) (*FeedbackResp, error)\<close>.
  The two guards compare the slices with \<^verbatim>\<open>nil\<close>. After the transport call the
  variable \<^verbatim>\<open>err\<close> is not read: \<^verbatim>\<open>json.Unmarshal(res, feedbackres)\<close> runs whatever the
  transport returned and its result overwrites \<^verbatim>\<open>err\<close>.
\<close>

definition exactly_one_msg :: string where
  "exactly_one_msg =
     ''Request must provide exactly one of the following fields: {'' @ [CHR 0x27] @ ''DocIDs''
       @ [CHR 0x27] @ '', '' @ [CHR 0x27] @ ''URLs'' @ [CHR 0x27] @ ''}''"

definition Feedback ::
    "transport \<Rightarrow> FeedbackResp unmarshal \<Rightarrow> FeedbackForm \<Rightarrow> FeedbackResp returned" where
  "Feedback commonHTTPRequest json_Unmarshal form =
     (if DocIDs form = None \<and> FeedbackForm.URLs form = None then
        ((None, Some (ErrorsNew ''Requires at least one docid or url'')), [])
      else if DocIDs form \<noteq> None \<and> FeedbackForm.URLs form \<noteq> None then
        ((None, Some (ErrorsNew exactly_one_msg)), [])
      else
        (case commonHTTPRequest (FeedbackBody form) ''feedback'' ''POST'' False of
           (res, err) \<Rightarrow>
             (case json_Unmarshal res new_FeedbackResp of
                (feedbackres, err') \<Rightarrow>
                  ((Some feedbackres, err'),
                   [CommonHTTPRequest (FeedbackBody form) ''feedback'' ''POST'' False,
                    JsonUnmarshal res]))))"

section \<open>Stub collaborators\<close>

text \<open>
  Concrete collaborators, to run the operations on concrete inputs. A transport that
  fails, a transport that answers with given bytes, and a decoder that behaves as
  \<^verbatim>\<open>json.Unmarshal\<close> does on an empty input (it reports the unexpected end of the input and
  leaves the struct as allocated) and otherwise delivers a given envelope.
\<close>

definition refusing_transport :: transport where
  "refusing_transport b endpoint method multipart =
     (None, Some (TransportError ''connection refused''))"

definition answering_transport :: "string \<Rightarrow> transport" where
  "answering_transport bytes b endpoint method multipart = (Some bytes, None)"

definition unmarshal_stub :: "'r \<Rightarrow> 'r unmarshal" where
  "unmarshal_stub decoded res v =
     (if len res = 0 then (v, Some (JsonError ''unexpected end of JSON input''))
      else (decoded, None))"

text \<open>
  A stand-in for \<^verbatim>\<open>strconv.ParseFloat\<close> that knows one literal, whose value is the same
  in every binary format.
\<close>

definition stub_parseFloat :: "nat \<Rightarrow> string \<Rightarrow> real option" where
  "stub_parseFloat bitSize lit = (if lit = ''0.5'' then Some (1 / 2) else None)"

text \<open>Concrete requests for the examples.\<close>

definition docids_only :: FeedbackForm where
  "docids_only =
     \<lparr>DocIDs = Some [''1''], FeedbackForm.URLs = None, AddTags = Some [''cat''],
      RemoveTags = None, DissimilarDocIDs = None, SimilarDocIDs = None, SearchClick = None\<rparr>"

definition empty_docids :: FeedbackForm where
  "empty_docids =
     \<lparr>DocIDs = Some [], FeedbackForm.URLs = None, AddTags = None,
      RemoveTags = None, DissimilarDocIDs = None, SimilarDocIDs = None, SearchClick = None\<rparr>"

definition docids_and_empty_urls :: FeedbackForm where
  "docids_and_empty_urls =
     \<lparr>DocIDs = Some [''1''], FeedbackForm.URLs = Some [], AddTags = None,
      RemoveTags = None, DissimilarDocIDs = None, SimilarDocIDs = None, SearchClick = None\<rparr>"

definition one_url_two_ids :: TagRequest where
  "one_url_two_ids =
     \<lparr>TagRequest.URLs = Some [''http://x/img.jpg''],
      TagRequest.LocalIDs = Some [''1'', ''2''], TagRequest.Model = ''no-such-model''\<rparr>"

definition one_url :: ColorRequest where
  "one_url = \<lparr>ColorRequest.URLs = Some [''http://x/img.jpg''], ColorRequest.LocalIDs = None\<rparr>"

definition urls_only :: TagRequest where
  "urls_only =
     \<lparr>TagRequest.URLs = Some [''a'', ''b''], TagRequest.LocalIDs = None,
      TagRequest.Model = []\<rparr>"

definition unset_form :: FeedbackForm where
  "unset_form =
     \<lparr>DocIDs = None, FeedbackForm.URLs = None, AddTags = None, RemoveTags = None,
      DissimilarDocIDs = None, SimilarDocIDs = None, SearchClick = None\<rparr>"

section \<open>JSON documents\<close>

text \<open>
  A JSON document as a value. A number keeps its literal as it stands in the document:
  Go's decoder hands the literal to the decoder of the field's type, and before that its
  scanner has checked the literal against the JSON grammar. An object keeps its members
  in order, duplicates included.
\<close>

datatype json =
    JNull
  | JBool bool
  | JNumber string
  | JString string
  | JArray "json list"
  | JObject "(string \<times> json) list"

definition member_names :: "json \<Rightarrow> string list" where
  "member_names j = (case j of JObject ms \<Rightarrow> map fst ms | _ \<Rightarrow> [])"

subsection \<open>Serialising the requests\<close>

text \<open>
  Modelled from the spec: the serialisation of a request body. \<^verbatim>\<open>requests.go\<close> hands the
  request struct to \<^verbatim>\<open>commonHTTPRequest\<close>, which is not part of \<^verbatim>\<open>requests.go\<close>, and the body
  is serialised there. The spec (sections 4.3 and 6) says that the body is a JSON object,
  that each field goes under its wire name, and that optional fields are omitted when
  unset. The wire names and the optional fields are those of the struct tags of
  \<^verbatim>\<open>TagRequest\<close>, \<^verbatim>\<open>ColorRequest\<close> and \<^verbatim>\<open>FeedbackForm\<close>: a field tagged \<^verbatim>\<open>omitempty\<close> is left out
  when it is empty (a nil slice, a slice of length 0, the empty string); a field without
  that tag is always written, a nil slice as \<^verbatim>\<open>null\<close>. Fields are written in the order of
  their declaration.
\<close>

definition marshal_strings :: "string slice \<Rightarrow> json" where
  \<comment> \<open>Modelled from the spec: the wire form of a \<^verbatim>\<open>[]string\<close>, \<^verbatim>\<open>null\<close> when nil.\<close>
  "marshal_strings s = (case s of None \<Rightarrow> JNull | Some xs \<Rightarrow> JArray (map JString xs))"

definition omitempty_strings :: "string \<Rightarrow> string slice \<Rightarrow> (string \<times> json) list" where
  \<comment> \<open>Modelled from the spec: an optional \<^verbatim>\<open>[]string\<close> field, omitted when empty.\<close>
  "omitempty_strings name s = (if len s = 0 then [] else [(name, marshal_strings s)])"

definition omitempty_string :: "string \<Rightarrow> string \<Rightarrow> (string \<times> json) list" where
  \<comment> \<open>Modelled from the spec: an optional \<^verbatim>\<open>string\<close> field, omitted when empty.\<close>
  "omitempty_string name s = (if s = [] then [] else [(name, JString s)])"

definition marshal_TagRequest :: "TagRequest \<Rightarrow> json" where
  \<comment> \<open>Modelled from the spec: the body of \<^verbatim>\<open>Tag\<close>, by the tags of \<^verbatim>\<open>TagRequest\<close>.\<close>
  "marshal_TagRequest req =
     JObject ([(''url'', marshal_strings (TagRequest.URLs req))]
       @ omitempty_strings ''local_ids'' (TagRequest.LocalIDs req)
       @ omitempty_string ''model'' (TagRequest.Model req))"

definition marshal_ColorRequest :: "ColorRequest \<Rightarrow> json" where
  \<comment> \<open>Modelled from the spec: the body of \<^verbatim>\<open>Color\<close>, by the tags of \<^verbatim>\<open>ColorRequest\<close>.\<close>
  "marshal_ColorRequest req =
     JObject ([(''url'', marshal_strings (ColorRequest.URLs req))]
       @ omitempty_strings ''local_ids'' (ColorRequest.LocalIDs req))"

definition marshal_FeedbackForm :: "FeedbackForm \<Rightarrow> json" where
  \<comment> \<open>Modelled from the spec: the body of \<^verbatim>\<open>Feedback\<close>, by the tags of \<^verbatim>\<open>FeedbackForm\<close>.\<close>
  "marshal_FeedbackForm form =
     JObject (omitempty_strings ''docids'' (DocIDs form)
       @ omitempty_strings ''url'' (FeedbackForm.URLs form)
       @ omitempty_strings ''add_tags'' (AddTags form)
       @ omitempty_strings ''remove_tags'' (RemoveTags form)
       @ omitempty_strings ''dissimilar_docids'' (DissimilarDocIDs form)
       @ omitempty_strings ''similar_docids'' (SimilarDocIDs form)
       @ omitempty_strings ''search_click'' (SearchClick form))"

subsection \<open>Decoding into the structs\<close>

text \<open>
  Modelled from the spec: decoding a parsed document into a struct. \<^verbatim>\<open>json.Unmarshal\<close> of
  Go's standard library does it, and it is not in \<^verbatim>\<open>requests.go\<close>. The spec (sections 4.1, 6
  and 9) asks for decoding by the declared shape of each struct; the rules are the
  library's, for the field types \<^verbatim>\<open>requests.go\<close> declares. The decoder writes into the value
  it is given, so every function takes the old value of its target:
  \<^item> \<^verbatim>\<open>null\<close> leaves a string, a number or a struct as it is and makes a slice or a
    pointer nil;
  \<^item> a string field takes a JSON string, a float field a number literal that
    \<^verbatim>\<open>strconv.ParseFloat\<close> accepts (a parameter: floating point is not modelled);
  \<^item> a slice takes an array, element by element, each element decoded into the old
    element at its index, or into a zero value beyond the old length (the spare
    capacity of a slice is not modelled), and ends with the length of the array;
  \<^item> a struct takes an object, member by member in the order of the document; a member
    that goes to no field of the struct is ignored;
  \<^item> anything else is an error of the decoder.
  The result is the error or the struct as filled: what Go leaves in the struct when it
  reports an error is not modelled.
\<close>

definition and_then :: "error + 'a \<Rightarrow> ('a \<Rightarrow> error + 'b) \<Rightarrow> error + 'b" where
  "and_then r f = (case r of Inl e \<Rightarrow> Inl e | Inr x \<Rightarrow> f x)"

definition type_error :: "string \<Rightarrow> error + 'a" where
  "type_error what =
     Inl (JsonError (''json: cannot unmarshal into Go value of type '' @ what))"

definition unmarshal_string :: "json \<Rightarrow> string \<Rightarrow> error + string" where
  "unmarshal_string j old =
     (case j of JNull \<Rightarrow> Inr old | JString s \<Rightarrow> Inr s | _ \<Rightarrow> type_error ''string'')"

definition unmarshal_float :: "(string \<Rightarrow> real option) \<Rightarrow> json \<Rightarrow> real \<Rightarrow> error + real" where
  "unmarshal_float parse j old =
     (case j of
        JNull \<Rightarrow> Inr old
      | JNumber lit \<Rightarrow> (case parse lit of None \<Rightarrow> type_error ''float'' | Some x \<Rightarrow> Inr x)
      | _ \<Rightarrow> type_error ''float'')"

fun unmarshal_elems ::
    "(json \<Rightarrow> 'a \<Rightarrow> error + 'a) \<Rightarrow> 'a \<Rightarrow> json list \<Rightarrow> 'a list \<Rightarrow> error + 'a list" where
  "unmarshal_elems elem zero [] old = Inr []"
| "unmarshal_elems elem zero (j # js) old =
     and_then (elem j (case old of [] \<Rightarrow> zero | x # _ \<Rightarrow> x)) (\<lambda>y.
     and_then (unmarshal_elems elem zero js (tl old)) (\<lambda>ys. Inr (y # ys)))"

definition unmarshal_slice ::
    "(json \<Rightarrow> 'a \<Rightarrow> error + 'a) \<Rightarrow> 'a \<Rightarrow> json \<Rightarrow> 'a slice \<Rightarrow> error + 'a slice" where
  "unmarshal_slice elem zero j old =
     (case j of
        JNull \<Rightarrow> Inr None
      | JArray js \<Rightarrow>
          and_then (unmarshal_elems elem zero js (case old of None \<Rightarrow> [] | Some xs \<Rightarrow> xs))
            (\<lambda>ys. Inr (Some ys))
      | _ \<Rightarrow> type_error ''slice'')"

fun unmarshal_members ::
    "(string \<Rightarrow> json \<Rightarrow> 'r \<Rightarrow> error + 'r) \<Rightarrow> (string \<times> json) list \<Rightarrow> 'r \<Rightarrow> error + 'r" where
  "unmarshal_members field [] r = Inr r"
| "unmarshal_members field ((name, j) # ms) r =
     and_then (field name j r) (unmarshal_members field ms)"

definition unmarshal_struct ::
    "(string \<Rightarrow> json \<Rightarrow> 'r \<Rightarrow> error + 'r) \<Rightarrow> json \<Rightarrow> 'r \<Rightarrow> error + 'r" where
  "unmarshal_struct field j r =
     (case j of
        JNull \<Rightarrow> Inr r
      | JObject ms \<Rightarrow> unmarshal_members field ms r
      | _ \<Rightarrow> type_error ''struct'')"

subsection \<open>Document identifiers: big.Int\<close>

text \<open>
  Modelled from the spec: a document identifier is decoded with arbitrary precision
  (section 4.1), by \<^verbatim>\<open>math/big\<close> of Go's standard library.
  \<^verbatim>\<open>DocID *big.Int\<close>: an integer of any size behind a pointer. \<^verbatim>\<open>big.Int\<close> decodes itself
  from the text of the JSON value (\<^verbatim>\<open>UnmarshalJSON\<close>): \<^verbatim>\<open>null\<close> gives the nil pointer; a
  number literal that is an integer (an optional minus sign and decimal digits, with no
  leading zero, as the JSON grammar has it) gives its value; a literal with a fraction or
  an exponent, and every value that is not a number, is an error. \<^verbatim>\<open>String\<close> writes the
  value in decimal.
\<close>

definition is_digit :: "char \<Rightarrow> bool" where
  "is_digit c = (48 \<le> (of_char c :: nat) \<and> (of_char c :: nat) \<le> 57)"

definition digit_char :: "nat \<Rightarrow> char" where
  "digit_char d = ''0123456789'' ! d"

fun digits_value :: "string \<Rightarrow> nat \<Rightarrow> nat option" where
  "digits_value [] acc = Some acc"
| "digits_value (c # cs) acc =
     (if is_digit c then digits_value cs (acc * 10 + (of_char c - 48)) else None)"

definition natural_literal :: "string \<Rightarrow> nat option" where
  "natural_literal s =
     (case s of
        [] \<Rightarrow> None
      | c # cs \<Rightarrow> if c = CHR ''0'' \<and> cs \<noteq> [] then None else digits_value s 0)"

definition bigInt_UnmarshalText :: "string \<Rightarrow> int option" where
  "bigInt_UnmarshalText s =
     (case s of
        [] \<Rightarrow> None
      | c # cs \<Rightarrow>
          if c = CHR ''-'' then map_option (\<lambda>n. - int n) (natural_literal cs)
          else map_option int (natural_literal s))"

definition unmarshal_bigInt :: "json \<Rightarrow> int option \<Rightarrow> error + int option" where
  "unmarshal_bigInt j old =
     (case j of
        JNull \<Rightarrow> Inr None
      | JNumber lit \<Rightarrow>
          (case bigInt_UnmarshalText lit of
             None \<Rightarrow> Inl (JsonError ''math/big: cannot unmarshal into a *big.Int'')
           | Some n \<Rightarrow> Inr (Some n))
      | _ \<Rightarrow> Inl (JsonError ''math/big: cannot unmarshal into a *big.Int''))"

function decimal :: "nat \<Rightarrow> string" where
  "decimal n =
     (if n < 10 then [digit_char n] else decimal (n div 10) @ [digit_char (n mod 10)])"
  by pat_completeness auto
termination
  by (relation "measure id") auto

declare decimal.simps [simp del]

definition bigInt_String :: "int \<Rightarrow> string" where
  "bigInt_String x = (if x < 0 then CHR ''-'' # decimal (nat (- x)) else decimal (nat x))"

subsection \<open>The request, by its tags\<close>

text \<open>
  Modelled from the spec: decoding a serialised \<^verbatim>\<open>TagRequest\<close> back, the second half of
  the round trip of the spec's section 8. Nothing in \<^verbatim>\<open>requests.go\<close> decodes a request;
  the members are those of the tags of \<^verbatim>\<open>TagRequest\<close>.
  The member names of a serialised request are the tags themselves, so this decoder
  compares a name with the tags as they are spelled.
\<close>

definition unmarshal_TagRequest_field :: "string \<Rightarrow> json \<Rightarrow> TagRequest \<Rightarrow> error + TagRequest" where
  "unmarshal_TagRequest_field name j req =
     (if name = ''url'' then
        and_then (unmarshal_slice unmarshal_string [] j (TagRequest.URLs req))
          (\<lambda>v. Inr (req\<lparr>TagRequest.URLs := v\<rparr>))
      else if name = ''local_ids'' then
        and_then (unmarshal_slice unmarshal_string [] j (TagRequest.LocalIDs req))
          (\<lambda>v. Inr (req\<lparr>TagRequest.LocalIDs := v\<rparr>))
      else if name = ''model'' then
        and_then (unmarshal_string j (TagRequest.Model req))
          (\<lambda>v. Inr (req\<lparr>TagRequest.Model := v\<rparr>))
      else Inr req)"

definition unmarshal_TagRequest :: "json \<Rightarrow> TagRequest \<Rightarrow> error + TagRequest" where
  \<comment> \<open>Modelled from the spec: \<^verbatim>\<open>json.Unmarshal\<close> into a \<^verbatim>\<open>TagRequest\<close>.\<close>
  "unmarshal_TagRequest = unmarshal_struct unmarshal_TagRequest_field"

subsection \<open>The responses, by their tags\<close>

text \<open>
  Modelled from the spec: the decoding of a response. \<^verbatim>\<open>Tag\<close> and \<^verbatim>\<open>Color\<close> hand the bytes
  to \<^verbatim>\<open>json.Unmarshal\<close>, and a \<^verbatim>\<open>DocID\<close> decodes itself through \<^verbatim>\<open>big.Int\<close>; both belong to Go's
  standard library and are not in \<^verbatim>\<open>requests.go\<close>. The spec (sections 4.1, 6 and 9) says
  that a response is decoded by its declared shape, wire name by wire name, that unknown
  members are ignored, and that a document identifier is decoded with arbitrary
  precision. The shapes and the wire names are those of \<^verbatim>\<open>TagResp\<close>, \<^verbatim>\<open>TagResult\<close>, \<^verbatim>\<open>ColorResp\<close>
  and \<^verbatim>\<open>Color\<close> in \<^verbatim>\<open>requests.go\<close>.

  Three functions of the library stay parameters: the comparison of a tag with a member
  name that is not spelled as any tag (the library folds case), the parsing of a float
  literal for a bit size, and the test that a string is a number literal.
\<close>

record json_library =
  equalFold :: "string \<Rightarrow> string \<Rightarrow> bool"
  parseFloat :: "nat \<Rightarrow> string \<Rightarrow> real option"
  isValidNumber :: "string \<Rightarrow> bool"

text \<open>
  The field a member goes to: the field whose tag is the member's name, and when there
  is none, the first field in the order of declaration whose tag the name equals up to
  folding. A member that finds no field is ignored.
\<close>

definition field_named :: "json_library \<Rightarrow> string list \<Rightarrow> string \<Rightarrow> string option" where
  \<comment> \<open>Modelled from the spec: the wire name mapping, with the library's fallback.\<close>
  "field_named lib tags name =
     (if name \<in> set tags then Some name else find (\<lambda>tag. equalFold lib tag name) tags)"

definition names_field :: "json_library \<Rightarrow> string list \<Rightarrow> string \<Rightarrow> string \<Rightarrow> bool" where
  "names_field lib tags tag name = (field_named lib tags name = Some tag)"

text \<open>
  A member may occur several times in an object; the decoder takes them in turn, so the
  last one that goes to a field decides the field.
\<close>

fun last_member :: "(string \<Rightarrow> bool) \<Rightarrow> (string \<times> json) list \<Rightarrow> json option" where
  "last_member hits [] = None"
| "last_member hits ((name, j) # ms) =
     (case last_member hits ms of
        Some v \<Rightarrow> Some v
      | None \<Rightarrow> if hits name then Some j else None)"

definition unmarshal_Number :: "json_library \<Rightarrow> json \<Rightarrow> string \<Rightarrow> error + string" where
  \<comment> \<open>Modelled from the spec: a \<^verbatim>\<open>json.Number\<close> keeps the literal; a string must hold one.\<close>
  "unmarshal_Number lib j old =
     (case j of
        JNull \<Rightarrow> Inr old
      | JNumber lit \<Rightarrow> Inr lit
      | JString s \<Rightarrow>
          if isValidNumber lib s then Inr s
          else Inl (JsonError ''json: invalid number literal'')
      | _ \<Rightarrow> type_error ''Number'')"

definition TagResp_Meta_Tag_tags :: "string list" where
  "TagResp_Meta_Tag_tags = [''timestamp'', ''model'', ''config'']"

definition unmarshal_TagResp_Meta_Tag_field ::
    "json_library \<Rightarrow> string \<Rightarrow> json \<Rightarrow> TagResp_Meta_Tag \<Rightarrow> error + TagResp_Meta_Tag" where
  \<comment> \<open>Modelled from the spec: one member of \<^verbatim>\<open>TagResp.Meta.Tag\<close>.\<close>
  "unmarshal_TagResp_Meta_Tag_field lib name j t =
     (case field_named lib TagResp_Meta_Tag_tags name of
        None \<Rightarrow> Inr t
      | Some tag \<Rightarrow>
          if tag = ''timestamp'' then
            and_then (unmarshal_Number lib j (Timestamp t)) (\<lambda>v. Inr (t\<lparr>Timestamp := v\<rparr>))
          else if tag = ''model'' then
            and_then (unmarshal_string j (TagResp_Meta_Tag.Model t))
              (\<lambda>v. Inr (t\<lparr>TagResp_Meta_Tag.Model := v\<rparr>))
          else if tag = ''config'' then
            and_then (unmarshal_string j (Config t)) (\<lambda>v. Inr (t\<lparr>Config := v\<rparr>))
          else Inr t)"

definition TagResp_Meta_tags :: "string list" where
  "TagResp_Meta_tags = [''tag'']"

definition unmarshal_TagResp_Meta_field ::
    "json_library \<Rightarrow> string \<Rightarrow> json \<Rightarrow> TagResp_Meta \<Rightarrow> error + TagResp_Meta" where
  \<comment> \<open>Modelled from the spec: one member of \<^verbatim>\<open>TagResp.Meta\<close>.\<close>
  "unmarshal_TagResp_Meta_field lib name j m =
     (case field_named lib TagResp_Meta_tags name of
        None \<Rightarrow> Inr m
      | Some tag \<Rightarrow>
          if tag = ''tag'' then
            and_then
              (unmarshal_struct (unmarshal_TagResp_Meta_Tag_field lib) j (TagResp_Meta.Tag m))
              (\<lambda>v. Inr (m\<lparr>TagResp_Meta.Tag := v\<rparr>))
          else Inr m)"

definition TagResult_Result_Tag_tags :: "string list" where
  "TagResult_Result_Tag_tags = [''classes'', ''catids'', ''probs'']"

definition unmarshal_TagResult_Result_Tag_field ::
    "json_library \<Rightarrow> string \<Rightarrow> json \<Rightarrow> TagResult_Result_Tag
      \<Rightarrow> error + TagResult_Result_Tag" where
  \<comment> \<open>Modelled from the spec: one member of \<^verbatim>\<open>TagResult.Result.Tag\<close>.\<close>
  "unmarshal_TagResult_Result_Tag_field lib name j t =
     (case field_named lib TagResult_Result_Tag_tags name of
        None \<Rightarrow> Inr t
      | Some tag \<Rightarrow>
          if tag = ''classes'' then
            and_then (unmarshal_slice unmarshal_string [] j (Classes t))
              (\<lambda>v. Inr (t\<lparr>Classes := v\<rparr>))
          else if tag = ''catids'' then
            and_then (unmarshal_slice unmarshal_string [] j (CatIDs t))
              (\<lambda>v. Inr (t\<lparr>CatIDs := v\<rparr>))
          else if tag = ''probs'' then
            and_then (unmarshal_slice (unmarshal_float (parseFloat lib 32)) 0 j (Probs t))
              (\<lambda>v. Inr (t\<lparr>Probs := v\<rparr>))
          else Inr t)"

definition TagResult_Result_tags :: "string list" where
  "TagResult_Result_tags = [''tag'']"

definition unmarshal_TagResult_Result_field ::
    "json_library \<Rightarrow> string \<Rightarrow> json \<Rightarrow> TagResult_Result \<Rightarrow> error + TagResult_Result" where
  \<comment> \<open>Modelled from the spec: one member of \<^verbatim>\<open>TagResult.Result\<close>.\<close>
  "unmarshal_TagResult_Result_field lib name j r =
     (case field_named lib TagResult_Result_tags name of
        None \<Rightarrow> Inr r
      | Some tag \<Rightarrow>
          if tag = ''tag'' then
            and_then
              (unmarshal_struct (unmarshal_TagResult_Result_Tag_field lib) j
                 (TagResult_Result.Tag r))
              (\<lambda>v. Inr (r\<lparr>TagResult_Result.Tag := v\<rparr>))
          else Inr r)"

definition TagResult_tags :: "string list" where
  "TagResult_tags =
     [''docid'', ''url'', ''status_code'', ''status_msg'', ''local_id'', ''result'',
      ''docid_str'']"

definition unmarshal_TagResult_field ::
    "json_library \<Rightarrow> string \<Rightarrow> json \<Rightarrow> TagResult \<Rightarrow> error + TagResult" where
  \<comment> \<open>Modelled from the spec: one member of a \<^verbatim>\<open>TagResult\<close>.\<close>
  "unmarshal_TagResult_field lib name j r =
     (case field_named lib TagResult_tags name of
        None \<Rightarrow> Inr r
      | Some tag \<Rightarrow>
          if tag = ''docid'' then
            and_then (unmarshal_bigInt j (TagResult.DocID r))
              (\<lambda>v. Inr (r\<lparr>TagResult.DocID := v\<rparr>))
          else if tag = ''url'' then
            and_then (unmarshal_string j (TagResult.URL r))
              (\<lambda>v. Inr (r\<lparr>TagResult.URL := v\<rparr>))
          else if tag = ''status_code'' then
            and_then (unmarshal_string j (TagResult.StatusCode r))
              (\<lambda>v. Inr (r\<lparr>TagResult.StatusCode := v\<rparr>))
          else if tag = ''status_msg'' then
            and_then (unmarshal_string j (TagResult.StatusMessage r))
              (\<lambda>v. Inr (r\<lparr>TagResult.StatusMessage := v\<rparr>))
          else if tag = ''local_id'' then
            and_then (unmarshal_string j (LocalID r))
              (\<lambda>v. Inr (r\<lparr>LocalID := v\<rparr>))
          else if tag = ''result'' then
            and_then
              (unmarshal_struct (unmarshal_TagResult_Result_field lib) j (Result r))
              (\<lambda>v. Inr (r\<lparr>Result := v\<rparr>))
          else if tag = ''docid_str'' then
            and_then (unmarshal_string j (TagResult.DocIDString r))
              (\<lambda>v. Inr (r\<lparr>TagResult.DocIDString := v\<rparr>))
          else Inr r)"

definition unmarshal_TagResult :: "json_library \<Rightarrow> json \<Rightarrow> TagResult \<Rightarrow> error + TagResult" where
  \<comment> \<open>Modelled from the spec: \<^verbatim>\<open>json.Unmarshal\<close> into a \<^verbatim>\<open>TagResult\<close>.\<close>
  "unmarshal_TagResult lib = unmarshal_struct (unmarshal_TagResult_field lib)"

definition TagResp_tags :: "string list" where
  "TagResp_tags = [''status_code'', ''status_msg'', ''meta'', ''results'']"

definition unmarshal_TagResp_field ::
    "json_library \<Rightarrow> string \<Rightarrow> json \<Rightarrow> TagResp \<Rightarrow> error + TagResp" where
  \<comment> \<open>Modelled from the spec: one member of a \<^verbatim>\<open>TagResp\<close>.\<close>
  "unmarshal_TagResp_field lib name j r =
     (case field_named lib TagResp_tags name of
        None \<Rightarrow> Inr r
      | Some tag \<Rightarrow>
          if tag = ''status_code'' then
            and_then (unmarshal_string j (TagResp.StatusCode r))
              (\<lambda>v. Inr (r\<lparr>TagResp.StatusCode := v\<rparr>))
          else if tag = ''status_msg'' then
            and_then (unmarshal_string j (TagResp.StatusMessage r))
              (\<lambda>v. Inr (r\<lparr>TagResp.StatusMessage := v\<rparr>))
          else if tag = ''meta'' then
            and_then (unmarshal_struct (unmarshal_TagResp_Meta_field lib) j (Meta r))
              (\<lambda>v. Inr (r\<lparr>Meta := v\<rparr>))
          else if tag = ''results'' then
            and_then
              (unmarshal_slice (unmarshal_TagResult lib) new_TagResult j (TagResp.Results r))
              (\<lambda>v. Inr (r\<lparr>TagResp.Results := v\<rparr>))
          else Inr r)"

definition unmarshal_TagResp :: "json_library \<Rightarrow> json \<Rightarrow> TagResp \<Rightarrow> error + TagResp" where
  \<comment> \<open>Modelled from the spec: \<^verbatim>\<open>json.Unmarshal(res, tagres)\<close>, on the parsed document.\<close>
  "unmarshal_TagResp lib = unmarshal_struct (unmarshal_TagResp_field lib)"

definition Color_W3C_tags :: "string list" where
  "Color_W3C_tags = [''hex'', ''name'']"

definition unmarshal_Color_W3C_field ::
    "json_library \<Rightarrow> string \<Rightarrow> json \<Rightarrow> Color_W3C \<Rightarrow> error + Color_W3C" where
  \<comment> \<open>Modelled from the spec: one member of \<^verbatim>\<open>Color.W3C\<close>.\<close>
  "unmarshal_Color_W3C_field lib name j w =
     (case field_named lib Color_W3C_tags name of
        None \<Rightarrow> Inr w
      | Some tag \<Rightarrow>
          if tag = ''hex'' then
            and_then (unmarshal_string j (Color_W3C.Hex w))
              (\<lambda>v. Inr (w\<lparr>Color_W3C.Hex := v\<rparr>))
          else if tag = ''name'' then
            and_then (unmarshal_string j (Name w)) (\<lambda>v. Inr (w\<lparr>Name := v\<rparr>))
          else Inr w)"

definition Color_tags :: "string list" where
  "Color_tags = [''w3c'', ''hex'', ''density'']"

definition unmarshal_Color_field ::
    "json_library \<Rightarrow> string \<Rightarrow> json \<Rightarrow> Color \<Rightarrow> error + Color" where
  \<comment> \<open>Modelled from the spec: one member of a \<^verbatim>\<open>Color\<close>.\<close>
  "unmarshal_Color_field lib name j c =
     (case field_named lib Color_tags name of
        None \<Rightarrow> Inr c
      | Some tag \<Rightarrow>
          if tag = ''w3c'' then
            and_then (unmarshal_struct (unmarshal_Color_W3C_field lib) j (W3C c))
              (\<lambda>v. Inr (c\<lparr>W3C := v\<rparr>))
          else if tag = ''hex'' then
            and_then (unmarshal_string j (Color.Hex c)) (\<lambda>v. Inr (c\<lparr>Color.Hex := v\<rparr>))
          else if tag = ''density'' then
            and_then (unmarshal_float (parseFloat lib 64) j (Density c))
              (\<lambda>v. Inr (c\<lparr>Density := v\<rparr>))
          else Inr c)"

definition ColorResp_Result_tags :: "string list" where
  "ColorResp_Result_tags = [''docid'', ''url'', ''docid_str'', ''colors'']"

definition unmarshal_ColorResp_Result_field ::
    "json_library \<Rightarrow> string \<Rightarrow> json \<Rightarrow> ColorResp_Result \<Rightarrow> error + ColorResp_Result" where
  \<comment> \<open>Modelled from the spec: one member of an element of \<^verbatim>\<open>ColorResp.Results\<close>.\<close>
  "unmarshal_ColorResp_Result_field lib name j r =
     (case field_named lib ColorResp_Result_tags name of
        None \<Rightarrow> Inr r
      | Some tag \<Rightarrow>
          if tag = ''docid'' then
            and_then (unmarshal_bigInt j (ColorResp_Result.DocID r))
              (\<lambda>v. Inr (r\<lparr>ColorResp_Result.DocID := v\<rparr>))
          else if tag = ''url'' then
            and_then (unmarshal_string j (ColorResp_Result.URL r))
              (\<lambda>v. Inr (r\<lparr>ColorResp_Result.URL := v\<rparr>))
          else if tag = ''docid_str'' then
            and_then (unmarshal_string j (ColorResp_Result.DocIDString r))
              (\<lambda>v. Inr (r\<lparr>ColorResp_Result.DocIDString := v\<rparr>))
          else if tag = ''colors'' then
            and_then
              (unmarshal_slice (unmarshal_struct (unmarshal_Color_field lib)) new_Color j
                 (Colors r))
              (\<lambda>v. Inr (r\<lparr>Colors := v\<rparr>))
          else Inr r)"

definition unmarshal_ColorResp_Result ::
    "json_library \<Rightarrow> json \<Rightarrow> ColorResp_Result \<Rightarrow> error + ColorResp_Result" where
  \<comment> \<open>Modelled from the spec: \<^verbatim>\<open>json.Unmarshal\<close> into an element of \<^verbatim>\<open>ColorResp.Results\<close>.\<close>
  "unmarshal_ColorResp_Result lib = unmarshal_struct (unmarshal_ColorResp_Result_field lib)"

definition ColorResp_tags :: "string list" where
  "ColorResp_tags = [''status_code'', ''status_msg'', ''results'']"

definition unmarshal_ColorResp_field ::
    "json_library \<Rightarrow> string \<Rightarrow> json \<Rightarrow> ColorResp \<Rightarrow> error + ColorResp" where
  \<comment> \<open>Modelled from the spec: one member of a \<^verbatim>\<open>ColorResp\<close>.\<close>
  "unmarshal_ColorResp_field lib name j r =
     (case field_named lib ColorResp_tags name of
        None \<Rightarrow> Inr r
      | Some tag \<Rightarrow>
          if tag = ''status_code'' then
            and_then (unmarshal_string j (ColorResp.StatusCode r))
              (\<lambda>v. Inr (r\<lparr>ColorResp.StatusCode := v\<rparr>))
          else if tag = ''status_msg'' then
            and_then (unmarshal_string j (ColorResp.StatusMessage r))
              (\<lambda>v. Inr (r\<lparr>ColorResp.StatusMessage := v\<rparr>))
          else if tag = ''results'' then
            and_then
              (unmarshal_slice (unmarshal_ColorResp_Result lib) new_ColorResp_Result j
                 (ColorResp.Results r))
              (\<lambda>v. Inr (r\<lparr>ColorResp.Results := v\<rparr>))
          else Inr r)"

definition unmarshal_ColorResp :: "json_library \<Rightarrow> json \<Rightarrow> ColorResp \<Rightarrow> error + ColorResp" where
  \<comment> \<open>Modelled from the spec: \<^verbatim>\<open>json.Unmarshal(res, colorResponse)\<close>, on the parsed document.\<close>
  "unmarshal_ColorResp lib = unmarshal_struct (unmarshal_ColorResp_field lib)"

subsection \<open>A concrete library and two concrete responses\<close>

text \<open>
  A stand-in for the three library functions: names match when they are equal, the only
  float literal is \<^verbatim>\<open>0.5\<close>, whose value is the same in every binary format, and no string is
  a number literal.
\<close>

definition stub_library :: json_library where
  "stub_library =
     \<lparr>equalFold = (\<lambda>tag name. tag = name), parseFloat = stub_parseFloat,
      isValidNumber = (\<lambda>s. False)\<rparr>"

text \<open>
  The response of the scenario of the spec's section 8, with a document identifier of
  \<open>2^64 + 1\<close>, and a colour response for the same image.
\<close>

definition big_docid_result :: "(string \<times> json) list" where
  "big_docid_result =
     [(''docid'', JNumber ''18446744073709551617''),
      (''url'', JString ''http://x/img.jpg''),
      (''status_code'', JString ''OK''),
      (''status_msg'', JString []),
      (''local_id'', JString []),
      (''result'',
       JObject [(''tag'',
         JObject [(''classes'', JArray [JString ''cat'']),
                  (''catids'', JArray [JString ''c1'']),
                  (''probs'', JArray [JNumber ''0.5''])])]),
      (''docid_str'', JString ''31fdb2316ff87fb5d747554ba5267313'')]"

definition big_docid_tag_response :: "(string \<times> json) list" where
  "big_docid_tag_response =
     [(''status_code'', JString ''OK''),
      (''status_msg'', JString []),
      (''results'', JArray [JObject big_docid_result])]"

definition big_docid_color_result :: "(string \<times> json) list" where
  "big_docid_color_result =
     [(''docid'', JNumber ''18446744073709551617''),
      (''url'', JString ''http://x/img.jpg''),
      (''docid_str'', JString ''31fdb2316ff87fb5d747554ba5267313''),
      (''colors'',
       JArray [JObject [(''w3c'', JObject [(''hex'', JString ''#000000''),
                                          (''name'', JString ''Black'')]),
                        (''hex'', JString ''#000101''),
                        (''density'', JNumber ''0.5'')]])]"

definition big_docid_color_response :: "(string \<times> json) list" where
  "big_docid_color_response =
     [(''status_code'', JString ''OK''),
      (''status_msg'', JString []),
      (''results'', JArray [JObject big_docid_color_result])]"

definition big_docid_tag_decoded :: TagResp where
  "big_docid_tag_decoded =
     \<lparr>TagResp.StatusCode = ''OK'', TagResp.StatusMessage = [],
      TagResp.Meta = TagResp.Meta new_TagResp,
      TagResp.Results =
        Some [\<lparr>TagResult.DocID = Some 18446744073709551617,
               TagResult.URL = ''http://x/img.jpg'',
               TagResult.StatusCode = ''OK'', TagResult.StatusMessage = [],
               TagResult.LocalID = [],
               TagResult.Result =
                 \<lparr>TagResult_Result.Tag =
                    \<lparr>TagResult_Result_Tag.Classes = Some [''cat''],
                     TagResult_Result_Tag.CatIDs = Some [''c1''],
                     TagResult_Result_Tag.Probs = Some [1 / 2]\<rparr>\<rparr>,
               TagResult.DocIDString = ''31fdb2316ff87fb5d747554ba5267313''\<rparr>]\<rparr>"

definition big_docid_color_decoded :: ColorResp where
  "big_docid_color_decoded =
     \<lparr>ColorResp.StatusCode = ''OK'', ColorResp.StatusMessage = [],
      ColorResp.Results =
        Some [\<lparr>ColorResp_Result.DocID = Some 18446744073709551617,
               ColorResp_Result.URL = ''http://x/img.jpg'',
               ColorResp_Result.DocIDString = ''31fdb2316ff87fb5d747554ba5267313'',
               ColorResp_Result.Colors =
                 Some [\<lparr>Color.W3C = \<lparr>Color_W3C.Hex = ''#000000'', Color_W3C.Name = ''Black''\<rparr>,
                        Color.Hex = ''#000101'', Color.Density = 1 / 2\<rparr>]\<rparr>]\<rparr>"

section \<open>Transport failures\<close>

text \<open>
  \<^verbatim>\<open>Info\<close>, \<^verbatim>\<open>Tag\<close> and \<^verbatim>\<open>Color\<close> test \<^verbatim>\<open>err != nil\<close> after the transport call: when the call
  was made and failed, they return the nil envelope with the transport's error as it is,
  and the decoder does not run.
\<close>

lemma Info_Tag_Color_propagate_transport_failure:
  "(commonHTTPRequest NilBody ''info'' ''GET'' False = (res, Some e) \<longrightarrow>
      Info commonHTTPRequest unmarshal_info =
        ((None, Some e), [CommonHTTPRequest NilBody ''info'' ''GET'' False]))
   \<and> (1 \<le> len (TagRequest.URLs treq) \<and>
       commonHTTPRequest (TagBody treq) ''tag'' ''POST'' False = (res, Some e) \<longrightarrow>
      Tag commonHTTPRequest unmarshal_tag treq =
        ((None, Some e), [CommonHTTPRequest (TagBody treq) ''tag'' ''POST'' False]))
   \<and> (1 \<le> len (ColorRequest.URLs creq) \<and>
       commonHTTPRequest (ColorBody creq) ''color'' ''POST'' False = (res, Some e) \<longrightarrow>
      Color commonHTTPRequest unmarshal_color creq =
        ((None, Some e), [CommonHTTPRequest (ColorBody creq) ''color'' ''POST'' False]))"
  by (simp add: Info_def Tag_def Color_def)

text \<open>
  \<^verbatim>\<open>Feedback\<close> does not: whatever error the transport returned is overwritten by the
  result of \<^verbatim>\<open>json.Unmarshal\<close>.
\<close>

lemma Feedback_ignores_transport_error:
  assumes "(DocIDs form = None) \<noteq> (FeedbackForm.URLs form = None)"
    and "commonHTTPRequest (FeedbackBody form) ''feedback'' ''POST'' False = (res, err)"
    and "unmarshal_feedback res new_FeedbackResp = (feedbackres, err')"
  shows "Feedback commonHTTPRequest unmarshal_feedback form =
     ((Some feedbackres, err'),
      [CommonHTTPRequest (FeedbackBody form) ''feedback'' ''POST'' False, JsonUnmarshal res])"
  using assms by (auto simp add: Feedback_def)

text \<open>
  C1. The claim: every operation returns a failure of the transport unchanged and does
  not decode. \<^verbatim>\<open>Feedback\<close> breaks it. With a form that names one document and a transport
  that fails with "connection refused" and no bytes, \<^verbatim>\<open>Feedback\<close> calls the decoder on the
  nil bytes and returns a non-nil envelope with the decoder's error; the transport's error
  is lost.
\<close>

theorem Feedback_decodes_after_transport_failure:
  "Feedback refusing_transport (unmarshal_stub new_FeedbackResp) docids_only =
     ((Some new_FeedbackResp, Some (JsonError ''unexpected end of JSON input'')),
      [CommonHTTPRequest (FeedbackBody docids_only) ''feedback'' ''POST'' False,
       JsonUnmarshal None])"
  by (simp add: Feedback_def refusing_transport_def unmarshal_stub_def docids_only_def len_def)

section \<open>Validation of Feedback\<close>

text \<open>
  The two guards of \<^verbatim>\<open>Feedback\<close> reject a form in which both slices are nil, and a form
  in which both are non-nil, before any call.
\<close>

lemma Feedback_rejects_both_nil_and_both_set:
  "(DocIDs form = None \<and> FeedbackForm.URLs form = None \<longrightarrow>
      Feedback commonHTTPRequest unmarshal_feedback form =
        ((None, Some (ErrorsNew ''Requires at least one docid or url'')), []))
   \<and> (DocIDs form \<noteq> None \<and> FeedbackForm.URLs form \<noteq> None \<longrightarrow>
      Feedback commonHTTPRequest unmarshal_feedback form =
        ((None, Some (ErrorsNew exactly_one_msg)), []))"
  by (simp add: Feedback_def)

text \<open>
  A non-nil slice of length 0 is not nil. A form whose \<^verbatim>\<open>DocIDs\<close> is \<^verbatim>\<open>[]string{}\<close> and
  whose other fields are unset serialises to the empty object: \<^verbatim>\<open>omitempty\<close> drops the
  empty slice.
\<close>

lemma empty_docids_body_names_no_document:
  "marshal_FeedbackForm
     \<lparr>DocIDs = Some [], FeedbackForm.URLs = None, AddTags = None, RemoveTags = None,
      DissimilarDocIDs = None, SimilarDocIDs = None, SearchClick = None\<rparr> =
   JObject []"
  by (simp add: marshal_FeedbackForm_def omitempty_strings_def len_def)

text \<open>
  C2. The claim: a form in which the document identifiers and the URLs are both empty,
  or both non-empty, is rejected without a transport call. \<^verbatim>\<open>Feedback\<close> breaks it for
  the form whose \<^verbatim>\<open>DocIDs\<close> is the empty non-nil slice and whose \<^verbatim>\<open>URLs\<close> is nil: both are
  empty, neither guard fires, the transport is called and the answer is decoded.
\<close>

theorem Feedback_accepts_empty_docids:
  "len (DocIDs empty_docids) = 0 \<and> len (FeedbackForm.URLs empty_docids) = 0
   \<and> Feedback (answering_transport ''{}'') (unmarshal_stub new_FeedbackResp) empty_docids =
     ((Some new_FeedbackResp, None),
      [CommonHTTPRequest (FeedbackBody empty_docids) ''feedback'' ''POST'' False,
       JsonUnmarshal (Some ''{}'')])"
  by (simp add: Feedback_def answering_transport_def unmarshal_stub_def empty_docids_def
      len_def)

text \<open>
  A form in which one of \<^verbatim>\<open>DocIDs\<close> and \<^verbatim>\<open>URLs\<close> holds at least one element and the other
  is nil passes both guards, whatever the other five fields hold: \<^verbatim>\<open>Feedback\<close> calls the
  transport with the form, the endpoint \<^verbatim>\<open>feedback\<close> and the method \<^verbatim>\<open>POST\<close>, and then the
  decoder on the bytes the transport returned.
\<close>

lemma Feedback_one_populated_other_nil_reaches_transport:
  "(1 \<le> len (DocIDs form) \<and> FeedbackForm.URLs form = None)
   \<or> (DocIDs form = None \<and> 1 \<le> len (FeedbackForm.URLs form)) \<longrightarrow>
     snd (Feedback commonHTTPRequest unmarshal_feedback form) =
       [CommonHTTPRequest (FeedbackBody form) ''feedback'' ''POST'' False,
        JsonUnmarshal (fst (commonHTTPRequest (FeedbackBody form) ''feedback'' ''POST'' False))]"
  by (auto simp add: Feedback_def len_def split: prod.splits)

text \<open>
  A form with one document identifier and the empty non-nil slice of URLs would
  serialise to a body that names the document and nothing else: \<^verbatim>\<open>omitempty\<close> drops the
  empty slice.
\<close>

lemma docids_with_empty_urls_body:
  "marshal_FeedbackForm
     \<lparr>DocIDs = Some [''1''], FeedbackForm.URLs = Some [], AddTags = None, RemoveTags = None,
      DissimilarDocIDs = None, SimilarDocIDs = None, SearchClick = None\<rparr> =
   JObject [(''docids'', JArray [JString ''1''])]"
  by (simp add: marshal_FeedbackForm_def omitempty_strings_def marshal_strings_def len_def)

text \<open>
  C4. The claim: a form in which exactly one of the document identifiers and the URLs
  is populated passes validation and reaches the transport, whatever its optional
  fields. \<^verbatim>\<open>Feedback\<close> breaks it for the form with one document identifier and the empty
  non-nil slice of URLs: exactly one of the two is populated, yet the second guard, which
  compares with \<^verbatim>\<open>nil\<close>, rejects the form, and no call is made.
\<close>

theorem Feedback_rejects_docids_with_empty_urls:
  "len (DocIDs docids_and_empty_urls) = 1
   \<and> len (FeedbackForm.URLs docids_and_empty_urls) = 0
   \<and> Feedback (answering_transport ''{}'') (unmarshal_stub new_FeedbackResp)
       docids_and_empty_urls =
     ((None, Some (ErrorsNew exactly_one_msg)), [])"
  by (simp add: Feedback_def docids_and_empty_urls_def len_def)

section \<open>Validation of Tag and Color\<close>

text \<open>
  C3. A \<^verbatim>\<open>TagRequest\<close> or \<^verbatim>\<open>ColorRequest\<close> whose URL sequence is empty (the nil slice or a
  slice of length 0) makes \<^verbatim>\<open>Tag\<close>, respectively \<^verbatim>\<open>Color\<close>, return the nil envelope with the
  error \<^verbatim>\<open>errors.New("Requires at least one url")\<close>, and no call is made: neither the
  transport nor the decoder runs.
\<close>

theorem empty_urls_rejected_without_transport:
  "(len (TagRequest.URLs treq) = 0 \<longrightarrow>
      Tag commonHTTPRequest unmarshal_tag treq =
        ((None, Some (ErrorsNew ''Requires at least one url'')), []))
   \<and> (len (ColorRequest.URLs creq) = 0 \<longrightarrow>
      Color commonHTTPRequest unmarshal_color creq =
        ((None, Some (ErrorsNew ''Requires at least one url'')), []))"
  by (simp add: Tag_def Color_def)

theorem empty_urls_rejected_without_transport_witness:
  "Tag (answering_transport ''{}'') (unmarshal_stub new_TagResp)
       \<lparr>TagRequest.URLs = Some [], TagRequest.LocalIDs = Some [''7''],
        TagRequest.Model = ''general-v1.3''\<rparr> =
     ((None, Some (ErrorsNew ''Requires at least one url'')), [])
   \<and> Color (answering_transport ''{}'') (unmarshal_stub new_ColorResp)
       \<lparr>ColorRequest.URLs = None, ColorRequest.LocalIDs = None\<rparr> =
     ((None, Some (ErrorsNew ''Requires at least one url'')), [])"
  using empty_urls_rejected_without_transport
    [of "\<lparr>TagRequest.URLs = Some [], TagRequest.LocalIDs = Some [''7''],
          TagRequest.Model = ''general-v1.3''\<rparr>"
        "answering_transport ''{}''" "unmarshal_stub new_TagResp"
        "\<lparr>ColorRequest.URLs = None, ColorRequest.LocalIDs = None\<rparr>"
        "unmarshal_stub new_ColorResp"]
  by (simp add: len_def)

text \<open>
  C10. A \<^verbatim>\<open>TagRequest\<close> or \<^verbatim>\<open>ColorRequest\<close> with at least one URL passes the guard whatever
  its \<^verbatim>\<open>LocalIDs\<close> and its \<^verbatim>\<open>Model\<close> are: the first call of the operation is the transport
  call with the request as given, the endpoint and \<^verbatim>\<open>POST\<close>. Nothing compares the number of
  local identifiers with the number of URLs, and nothing reads the model.
\<close>

theorem nonempty_urls_reach_transport:
  "1 \<le> len urls \<longrightarrow>
     snd (Tag commonHTTPRequest unmarshal_tag
            \<lparr>TagRequest.URLs = urls, TagRequest.LocalIDs = ids, TagRequest.Model = model\<rparr>)
       \<noteq> []
   \<and> hd (snd (Tag commonHTTPRequest unmarshal_tag
            \<lparr>TagRequest.URLs = urls, TagRequest.LocalIDs = ids, TagRequest.Model = model\<rparr>)) =
       CommonHTTPRequest
         (TagBody \<lparr>TagRequest.URLs = urls, TagRequest.LocalIDs = ids,
                   TagRequest.Model = model\<rparr>)
         ''tag'' ''POST'' False
   \<and> snd (Color commonHTTPRequest unmarshal_color
            \<lparr>ColorRequest.URLs = urls, ColorRequest.LocalIDs = ids\<rparr>) \<noteq> []
   \<and> hd (snd (Color commonHTTPRequest unmarshal_color
            \<lparr>ColorRequest.URLs = urls, ColorRequest.LocalIDs = ids\<rparr>)) =
       CommonHTTPRequest (ColorBody \<lparr>ColorRequest.URLs = urls, ColorRequest.LocalIDs = ids\<rparr>)
         ''color'' ''POST'' False"
  by (auto simp add: Tag_def Color_def split: prod.splits)

theorem nonempty_urls_reach_transport_witness:
  "len (TagRequest.URLs one_url_two_ids) = 1 \<and> len (TagRequest.LocalIDs one_url_two_ids) = 2
   \<and> snd (Tag refusing_transport (unmarshal_stub new_TagResp) one_url_two_ids) \<noteq> []
   \<and> hd (snd (Tag refusing_transport (unmarshal_stub new_TagResp) one_url_two_ids)) =
       CommonHTTPRequest (TagBody one_url_two_ids) ''tag'' ''POST'' False
   \<and> snd (Color refusing_transport (unmarshal_stub new_ColorResp)
            \<lparr>ColorRequest.URLs = Some [''http://x/img.jpg''],
             ColorRequest.LocalIDs = Some [''1'', ''2'']\<rparr>) \<noteq> []
   \<and> hd (snd (Color refusing_transport (unmarshal_stub new_ColorResp)
            \<lparr>ColorRequest.URLs = Some [''http://x/img.jpg''],
             ColorRequest.LocalIDs = Some [''1'', ''2'']\<rparr>)) =
       CommonHTTPRequest
         (ColorBody \<lparr>ColorRequest.URLs = Some [''http://x/img.jpg''],
                     ColorRequest.LocalIDs = Some [''1'', ''2'']\<rparr>)
         ''color'' ''POST'' False"
  using nonempty_urls_reach_transport
    [of "Some [''http://x/img.jpg'']" refusing_transport "unmarshal_stub new_TagResp"
        "Some [''1'', ''2'']" "''no-such-model''" "unmarshal_stub new_ColorResp"]
  by (simp add: one_url_two_ids_def len_def)

section \<open>What the operations return after a successful transport call\<close>

text \<open>
  C7. When the transport returns bytes and no error and \<^verbatim>\<open>json.Unmarshal\<close> fills the
  envelope and returns no error, the operation returns that envelope and the nil error,
  after exactly these two calls. \<^verbatim>\<open>Info\<close> calls the transport always, \<^verbatim>\<open>Tag\<close> and \<^verbatim>\<open>Color\<close>
  when the request has a URL, \<^verbatim>\<open>Feedback\<close> when exactly one of \<^verbatim>\<open>DocIDs\<close> and \<^verbatim>\<open>URLs\<close> is
  nil. The envelope is arbitrary, and so is its status code: no operation reads it.
\<close>

theorem decoded_envelope_returned_whatever_its_status:
  "(commonHTTPRequest NilBody ''info'' ''GET'' False = (res_info, None) \<and>
    unmarshal_info res_info new_InfoResp = (info, None) \<longrightarrow>
      Info commonHTTPRequest unmarshal_info =
        ((Some info, None),
         [CommonHTTPRequest NilBody ''info'' ''GET'' False, JsonUnmarshal res_info]))
   \<and> (1 \<le> len (TagRequest.URLs treq) \<and>
    commonHTTPRequest (TagBody treq) ''tag'' ''POST'' False = (res_tag, None) \<and>
    unmarshal_tag res_tag new_TagResp = (tagres, None) \<longrightarrow>
      Tag commonHTTPRequest unmarshal_tag treq =
        ((Some tagres, None),
         [CommonHTTPRequest (TagBody treq) ''tag'' ''POST'' False, JsonUnmarshal res_tag]))
   \<and> (1 \<le> len (ColorRequest.URLs creq) \<and>
    commonHTTPRequest (ColorBody creq) ''color'' ''POST'' False = (res_color, None) \<and>
    unmarshal_color res_color new_ColorResp = (colorResponse, None) \<longrightarrow>
      Color commonHTTPRequest unmarshal_color creq =
        ((Some colorResponse, None),
         [CommonHTTPRequest (ColorBody creq) ''color'' ''POST'' False,
          JsonUnmarshal res_color]))
   \<and> ((DocIDs form = None) \<noteq> (FeedbackForm.URLs form = None) \<and>
    commonHTTPRequest (FeedbackBody form) ''feedback'' ''POST'' False = (res_feedback, None) \<and>
    unmarshal_feedback res_feedback new_FeedbackResp = (feedbackres, None) \<longrightarrow>
      Feedback commonHTTPRequest unmarshal_feedback form =
        ((Some feedbackres, None),
         [CommonHTTPRequest (FeedbackBody form) ''feedback'' ''POST'' False,
          JsonUnmarshal res_feedback]))"
  by (auto simp add: Info_def Tag_def Color_def Feedback_def)

theorem decoded_envelope_returned_whatever_its_status_witness:
  "Info (answering_transport ''{}'')
     (unmarshal_stub (new_InfoResp\<lparr>InfoResp.StatusCode := ''ALL_ERROR''\<rparr>)) =
     ((Some (new_InfoResp\<lparr>InfoResp.StatusCode := ''ALL_ERROR''\<rparr>), None),
      [CommonHTTPRequest NilBody ''info'' ''GET'' False, JsonUnmarshal (Some ''{}'')])
   \<and> Tag (answering_transport ''{}'')
       (unmarshal_stub (new_TagResp\<lparr>TagResp.StatusCode := ''ALL_ERROR''\<rparr>))
       one_url_two_ids =
     ((Some (new_TagResp\<lparr>TagResp.StatusCode := ''ALL_ERROR''\<rparr>), None),
      [CommonHTTPRequest (TagBody one_url_two_ids) ''tag'' ''POST'' False,
       JsonUnmarshal (Some ''{}'')])
   \<and> Color (answering_transport ''{}'')
       (unmarshal_stub (new_ColorResp\<lparr>ColorResp.StatusCode := ''ALL_ERROR''\<rparr>))
       one_url =
     ((Some (new_ColorResp\<lparr>ColorResp.StatusCode := ''ALL_ERROR''\<rparr>), None),
      [CommonHTTPRequest (ColorBody one_url) ''color'' ''POST'' False,
       JsonUnmarshal (Some ''{}'')])
   \<and> Feedback (answering_transport ''{}'')
       (unmarshal_stub (new_FeedbackResp\<lparr>FeedbackResp.StatusCode := ''ALL_ERROR''\<rparr>))
       docids_only =
     ((Some (new_FeedbackResp\<lparr>FeedbackResp.StatusCode := ''ALL_ERROR''\<rparr>), None),
      [CommonHTTPRequest (FeedbackBody docids_only) ''feedback'' ''POST'' False,
       JsonUnmarshal (Some ''{}'')])"
proof -
  let ?t = "answering_transport ''{}''"
  let ?ui = "unmarshal_stub (new_InfoResp\<lparr>InfoResp.StatusCode := ''ALL_ERROR''\<rparr>)"
  let ?ut = "unmarshal_stub (new_TagResp\<lparr>TagResp.StatusCode := ''ALL_ERROR''\<rparr>)"
  let ?uc = "unmarshal_stub (new_ColorResp\<lparr>ColorResp.StatusCode := ''ALL_ERROR''\<rparr>)"
  let ?uf = "unmarshal_stub (new_FeedbackResp\<lparr>FeedbackResp.StatusCode := ''ALL_ERROR''\<rparr>)"
  have guards:
    "1 \<le> len (TagRequest.URLs one_url_two_ids)"
    "1 \<le> len (ColorRequest.URLs one_url)"
    "(DocIDs docids_only = None) \<noteq> (FeedbackForm.URLs docids_only = None)"
    by (simp_all add: one_url_two_ids_def one_url_def docids_only_def len_def)
  have answers:
    "?t NilBody ''info'' ''GET'' False = (Some ''{}'', None)"
    "?t (TagBody one_url_two_ids) ''tag'' ''POST'' False = (Some ''{}'', None)"
    "?t (ColorBody one_url) ''color'' ''POST'' False = (Some ''{}'', None)"
    "?t (FeedbackBody docids_only) ''feedback'' ''POST'' False = (Some ''{}'', None)"
    by (simp_all add: answering_transport_def)
  have decoded:
    "?ui (Some ''{}'') new_InfoResp = (new_InfoResp\<lparr>InfoResp.StatusCode := ''ALL_ERROR''\<rparr>, None)"
    "?ut (Some ''{}'') new_TagResp = (new_TagResp\<lparr>TagResp.StatusCode := ''ALL_ERROR''\<rparr>, None)"
    "?uc (Some ''{}'') new_ColorResp =
       (new_ColorResp\<lparr>ColorResp.StatusCode := ''ALL_ERROR''\<rparr>, None)"
    "?uf (Some ''{}'') new_FeedbackResp =
       (new_FeedbackResp\<lparr>FeedbackResp.StatusCode := ''ALL_ERROR''\<rparr>, None)"
    by (simp_all add: unmarshal_stub_def len_def)
  show ?thesis
    using guards answers decoded
      decoded_envelope_returned_whatever_its_status
        [of ?t "Some ''{}''" ?ui "new_InfoResp\<lparr>InfoResp.StatusCode := ''ALL_ERROR''\<rparr>"
            one_url_two_ids "Some ''{}''" ?ut
            "new_TagResp\<lparr>TagResp.StatusCode := ''ALL_ERROR''\<rparr>"
            one_url "Some ''{}''" ?uc "new_ColorResp\<lparr>ColorResp.StatusCode := ''ALL_ERROR''\<rparr>"
            docids_only "Some ''{}''" ?uf
            "new_FeedbackResp\<lparr>FeedbackResp.StatusCode := ''ALL_ERROR''\<rparr>"]
    by blast
qed

text \<open>
  C9. When the transport returns bytes and no error and \<^verbatim>\<open>json.Unmarshal\<close> returns an
  error, the operation returns that error together with a non-nil envelope: the struct it
  allocated, as the decoder left it.
\<close>

theorem decoding_error_comes_with_envelope:
  "(commonHTTPRequest NilBody ''info'' ''GET'' False = (res_info, None) \<and>
    unmarshal_info res_info new_InfoResp = (info, Some e) \<longrightarrow>
      Info commonHTTPRequest unmarshal_info =
        ((Some info, Some e),
         [CommonHTTPRequest NilBody ''info'' ''GET'' False, JsonUnmarshal res_info]))
   \<and> (1 \<le> len (TagRequest.URLs treq) \<and>
    commonHTTPRequest (TagBody treq) ''tag'' ''POST'' False = (res_tag, None) \<and>
    unmarshal_tag res_tag new_TagResp = (tagres, Some e) \<longrightarrow>
      Tag commonHTTPRequest unmarshal_tag treq =
        ((Some tagres, Some e),
         [CommonHTTPRequest (TagBody treq) ''tag'' ''POST'' False, JsonUnmarshal res_tag]))
   \<and> (1 \<le> len (ColorRequest.URLs creq) \<and>
    commonHTTPRequest (ColorBody creq) ''color'' ''POST'' False = (res_color, None) \<and>
    unmarshal_color res_color new_ColorResp = (colorResponse, Some e) \<longrightarrow>
      Color commonHTTPRequest unmarshal_color creq =
        ((Some colorResponse, Some e),
         [CommonHTTPRequest (ColorBody creq) ''color'' ''POST'' False,
          JsonUnmarshal res_color]))
   \<and> ((DocIDs form = None) \<noteq> (FeedbackForm.URLs form = None) \<and>
    commonHTTPRequest (FeedbackBody form) ''feedback'' ''POST'' False = (res_feedback, None) \<and>
    unmarshal_feedback res_feedback new_FeedbackResp = (feedbackres, Some e) \<longrightarrow>
      Feedback commonHTTPRequest unmarshal_feedback form =
        ((Some feedbackres, Some e),
         [CommonHTTPRequest (FeedbackBody form) ''feedback'' ''POST'' False,
          JsonUnmarshal res_feedback]))"
  by (auto simp add: Info_def Tag_def Color_def Feedback_def)

theorem decoding_error_comes_with_envelope_witness:
  "Info (answering_transport []) (unmarshal_stub new_InfoResp) =
     ((Some new_InfoResp, Some (JsonError ''unexpected end of JSON input'')),
      [CommonHTTPRequest NilBody ''info'' ''GET'' False, JsonUnmarshal (Some [])])
   \<and> Tag (answering_transport []) (unmarshal_stub new_TagResp) one_url_two_ids =
     ((Some new_TagResp, Some (JsonError ''unexpected end of JSON input'')),
      [CommonHTTPRequest (TagBody one_url_two_ids) ''tag'' ''POST'' False,
       JsonUnmarshal (Some [])])
   \<and> Color (answering_transport []) (unmarshal_stub new_ColorResp) one_url =
     ((Some new_ColorResp, Some (JsonError ''unexpected end of JSON input'')),
      [CommonHTTPRequest (ColorBody one_url) ''color'' ''POST'' False,
       JsonUnmarshal (Some [])])
   \<and> Feedback (answering_transport []) (unmarshal_stub new_FeedbackResp) docids_only =
     ((Some new_FeedbackResp, Some (JsonError ''unexpected end of JSON input'')),
      [CommonHTTPRequest (FeedbackBody docids_only) ''feedback'' ''POST'' False,
       JsonUnmarshal (Some [])])"
proof -
  let ?t = "answering_transport []"
  let ?e = "JsonError ''unexpected end of JSON input''"
  have guards:
    "1 \<le> len (TagRequest.URLs one_url_two_ids)"
    "1 \<le> len (ColorRequest.URLs one_url)"
    "(DocIDs docids_only = None) \<noteq> (FeedbackForm.URLs docids_only = None)"
    by (simp_all add: one_url_two_ids_def one_url_def docids_only_def len_def)
  have answers:
    "?t NilBody ''info'' ''GET'' False = (Some [], None)"
    "?t (TagBody one_url_two_ids) ''tag'' ''POST'' False = (Some [], None)"
    "?t (ColorBody one_url) ''color'' ''POST'' False = (Some [], None)"
    "?t (FeedbackBody docids_only) ''feedback'' ''POST'' False = (Some [], None)"
    by (simp_all add: answering_transport_def)
  have decoded:
    "unmarshal_stub new_InfoResp (Some []) new_InfoResp = (new_InfoResp, Some ?e)"
    "unmarshal_stub new_TagResp (Some []) new_TagResp = (new_TagResp, Some ?e)"
    "unmarshal_stub new_ColorResp (Some []) new_ColorResp = (new_ColorResp, Some ?e)"
    "unmarshal_stub new_FeedbackResp (Some []) new_FeedbackResp = (new_FeedbackResp, Some ?e)"
    by (simp_all add: unmarshal_stub_def len_def)
  show ?thesis
    using guards answers decoded
      decoding_error_comes_with_envelope
        [of ?t "Some []" "unmarshal_stub new_InfoResp" new_InfoResp ?e
            one_url_two_ids "Some []" "unmarshal_stub new_TagResp" new_TagResp
            one_url "Some []" "unmarshal_stub new_ColorResp" new_ColorResp
            docids_only "Some []" "unmarshal_stub new_FeedbackResp" new_FeedbackResp]
    by blast
qed

section \<open>Document identifiers beyond 64 bits\<close>

text \<open>
  Reading back the decimal form of a number gives the number: \<^verbatim>\<open>big.Int\<close> has no bound.
\<close>

lemma digit_char_cases:
  assumes "d < 10"
  shows "is_digit (digit_char d) \<and> of_char (digit_char d) - 48 = d"
proof -
  from assms have "d \<in> {0, 1, 2, 3, 4, 5, 6, 7, 8, 9}"
    by auto
  then show ?thesis
    by (auto simp add: digit_char_def is_digit_def)
qed

lemma digits_value_append:
  "digits_value (xs @ ys) acc =
     (case digits_value xs acc of None \<Rightarrow> None | Some a \<Rightarrow> digits_value ys a)"
  by (induction xs arbitrary: acc) auto

lemma digits_value_decimal: "digits_value (decimal n) 0 = Some n"
proof (induction n rule: decimal.induct)
  case (1 n)
  show ?case
  proof (cases "n < 10")
    case True
    then show ?thesis
      by (simp add: decimal.simps [of n] digit_char_cases)
  next
    case False
    then have "digits_value (decimal (n div 10)) 0 = Some (n div 10)"
      using "1.IH" by simp
    moreover have "n mod 10 < 10" by simp
    ultimately show ?thesis
      using False
      by (simp add: decimal.simps [of n] digits_value_append digit_char_cases)
  qed
qed

lemma decimal_not_Nil: "decimal n \<noteq> []"
  by (simp add: decimal.simps [of n])

lemma hd_decimal: "hd (decimal n) = CHR ''0'' \<Longrightarrow> n = 0"
proof (induction n rule: decimal.induct)
  case (1 n)
  show ?case
  proof (cases "n < 10")
    case True
    then have "n \<in> {0, 1, 2, 3, 4, 5, 6, 7, 8, 9}" by auto
    with "1.prems" show ?thesis
      by (auto simp add: decimal.simps [of n] digit_char_def)
  next
    case False
    with "1.prems" have "hd (decimal (n div 10)) = CHR ''0''"
      by (simp add: decimal.simps [of n] decimal_not_Nil)
    with False "1.IH" have "n div 10 = 0" by simp
    with False show ?thesis by simp
  qed
qed

lemma hd_decimal_not_minus: "hd (decimal n) \<noteq> CHR ''-''"
proof (induction n rule: decimal.induct)
  case (1 n)
  show ?case
  proof (cases "n < 10")
    case True
    then have "n \<in> {0, 1, 2, 3, 4, 5, 6, 7, 8, 9}" by auto
    then show ?thesis
      by (auto simp add: decimal.simps [of n] digit_char_def)
  next
    case False
    with "1.IH" show ?thesis
      by (simp add: decimal.simps [of n] decimal_not_Nil)
  qed
qed

lemma natural_literal_decimal: "natural_literal (decimal n) = Some n"
proof (cases "decimal n")
  case Nil
  then show ?thesis by (simp add: decimal_not_Nil)
next
  case (Cons c cs)
  show ?thesis
  proof (cases "c = CHR ''0'' \<and> cs \<noteq> []")
    case True
    with Cons have "n = 0" using hd_decimal [of n] by simp
    with Cons True show ?thesis by (simp add: decimal.simps [of 0] digit_char_def)
  next
    case False
    with Cons show ?thesis
      using digits_value_decimal [of n] by (auto simp add: natural_literal_def)
  qed
qed

lemma bigInt_UnmarshalText_String: "bigInt_UnmarshalText (bigInt_String x) = Some x"
proof (cases "x < 0")
  case True
  then show ?thesis
    by (simp add: bigInt_UnmarshalText_def bigInt_String_def natural_literal_decimal)
next
  case False
  obtain c cs where d: "decimal (nat x) = c # cs"
    using decimal_not_Nil [of "nat x"] by (cases "decimal (nat x)") auto
  then have "c \<noteq> CHR ''-''"
    using hd_decimal_not_minus [of "nat x"] by simp
  with False d show ?thesis
    using natural_literal_decimal [of "nat x"]
    by (simp add: bigInt_UnmarshalText_def bigInt_String_def)
qed

lemma unmarshal_bigInt_literal:
  "unmarshal_bigInt (JNumber (bigInt_String n)) old = Inr (Some n)"
  by (simp add: unmarshal_bigInt_def bigInt_UnmarshalText_String)

lemma unmarshal_string_JString: "unmarshal_string (JString s) old = Inr s"
  by (simp add: unmarshal_string_def)

text \<open>
  Decoding an object member by member: a field of the struct ends as the last member
  that goes to it left it, and a field that no member goes to keeps its old value.
\<close>

lemma and_then_Inr: "(and_then x f = Inr y) = (\<exists>a. x = Inr a \<and> f a = Inr y)"
  by (cases x) (simp_all add: and_then_def)

lemma unmarshal_members_last:
  assumes frame: "\<And>name j r r'. \<not> hits name \<Longrightarrow> field name j r = Inr r' \<Longrightarrow> sel r' = sel r"
    and hit: "\<And>name j r r'. hits name \<Longrightarrow> field name j r = Inr r' \<Longrightarrow> P j (sel r')"
    and run: "unmarshal_members field ms r0 = Inr r"
  shows "case last_member hits ms of None \<Rightarrow> sel r = sel r0 | Some j \<Rightarrow> P j (sel r)"
  using run
proof (induction ms arbitrary: r0)
  case Nil
  then show ?case by simp
next
  case (Cons m ms)
  obtain name j where m: "m = (name, j)" by (cases m)
  from Cons.prems m obtain r1 where
    step: "field name j r0 = Inr r1" and rest: "unmarshal_members field ms r1 = Inr r"
    by (auto simp add: and_then_Inr)
  note IH = Cons.IH [OF rest]
  show ?case
  proof (cases "last_member hits ms")
    case (Some v)
    with IH m show ?thesis by simp
  next
    case None
    with IH have same: "sel r = sel r1" by simp
    show ?thesis
    proof (cases "hits name")
      case True
      with hit [OF True step] same None m show ?thesis by simp
    next
      case False
      with frame [OF False step] same None m show ?thesis by simp
    qed
  qed
qed

lemma unmarshal_elems_nth:
  "unmarshal_elems elem zero js old = Inr rs \<Longrightarrow>
     length rs = length js \<and> (\<forall>i<length js. \<exists>x. elem (js ! i) x = Inr (rs ! i))"
proof (induction js arbitrary: old rs)
  case Nil
  then show ?case by simp
next
  case (Cons j js)
  from Cons.prems obtain y ys where
    y: "elem j (case old of [] \<Rightarrow> zero | x # _ \<Rightarrow> x) = Inr y"
    and ys: "unmarshal_elems elem zero js (tl old) = Inr ys" and rs: "rs = y # ys"
    by (auto simp add: and_then_Inr)
  from Cons.IH [OF ys] have len: "length ys = length js"
    and nth: "\<forall>i<length js. \<exists>x. elem (js ! i) x = Inr (ys ! i)" by simp_all
  show ?case
  proof (intro conjI allI impI)
    show "length rs = length (j # js)" using len rs by simp
  next
    fix i assume "i < length (j # js)"
    then show "\<exists>x. elem ((j # js) ! i) x = Inr (rs ! i)"
      using y nth rs by (cases i) auto
  qed
qed

text \<open>The same for a \<^verbatim>\<open>TagResp\<close> and its results.\<close>

lemma TagResult_docid_member:
  "names_field lib TagResult_tags ''docid'' name \<Longrightarrow>
     unmarshal_TagResult_field lib name (JNumber (bigInt_String n)) r =
       Inr (r\<lparr>TagResult.DocID := Some n\<rparr>)"
  by (simp add: names_field_def unmarshal_TagResult_field_def unmarshal_bigInt_literal
      and_then_def)

lemma TagResult_other_member_keeps_docid:
  "\<not> names_field lib TagResult_tags ''docid'' name \<Longrightarrow>
     unmarshal_TagResult_field lib name j r = Inr r' \<Longrightarrow>
     TagResult.DocID r' = TagResult.DocID r"
  by (auto simp add: names_field_def unmarshal_TagResult_field_def and_then_Inr
      split: option.splits if_splits)

lemma TagResult_docid_str_member:
  "names_field lib TagResult_tags ''docid_str'' name \<Longrightarrow>
     unmarshal_TagResult_field lib name (JString s) r = Inr r' \<Longrightarrow>
     TagResult.DocIDString r' = s"
  by (auto simp add: names_field_def unmarshal_TagResult_field_def and_then_Inr
      unmarshal_string_JString split: option.splits if_splits)

lemma TagResult_other_member_keeps_docid_str:
  "\<not> names_field lib TagResult_tags ''docid_str'' name \<Longrightarrow>
     unmarshal_TagResult_field lib name j r = Inr r' \<Longrightarrow>
     TagResult.DocIDString r' = TagResult.DocIDString r"
  by (auto simp add: names_field_def unmarshal_TagResult_field_def and_then_Inr
      split: option.splits if_splits)

lemma TagResult_docid_decoded:
  assumes "unmarshal_TagResult lib (JObject ms) r0 = Inr r"
    and "last_member (names_field lib TagResult_tags ''docid'') ms =
           Some (JNumber (bigInt_String n))"
  shows "TagResult.DocID r = Some n"
proof -
  from assms(1) have run: "unmarshal_members (unmarshal_TagResult_field lib) ms r0 = Inr r"
    by (simp add: unmarshal_TagResult_def unmarshal_struct_def)
  have "case last_member (names_field lib TagResult_tags ''docid'') ms of
          None \<Rightarrow> TagResult.DocID r = TagResult.DocID r0
        | Some j \<Rightarrow> \<forall>k. j = JNumber (bigInt_String k) \<longrightarrow> TagResult.DocID r = Some k"
  proof (rule unmarshal_members_last [OF _ _ run])
    fix name j x x'
    assume "\<not> names_field lib TagResult_tags ''docid'' name"
      and "unmarshal_TagResult_field lib name j x = Inr x'"
    then show "TagResult.DocID x' = TagResult.DocID x"
      by (rule TagResult_other_member_keeps_docid)
  next
    fix name j x x'
    assume "names_field lib TagResult_tags ''docid'' name"
      and "unmarshal_TagResult_field lib name j x = Inr x'"
    then show "\<forall>k. j = JNumber (bigInt_String k) \<longrightarrow> TagResult.DocID x' = Some k"
      by (auto simp add: TagResult_docid_member)
  qed
  with assms(2) show ?thesis by simp
qed

lemma TagResult_docid_str_decoded:
  assumes "unmarshal_TagResult lib (JObject ms) r0 = Inr r"
    and "last_member (names_field lib TagResult_tags ''docid_str'') ms = Some (JString s)"
  shows "TagResult.DocIDString r = s"
proof -
  from assms(1) have run: "unmarshal_members (unmarshal_TagResult_field lib) ms r0 = Inr r"
    by (simp add: unmarshal_TagResult_def unmarshal_struct_def)
  have "case last_member (names_field lib TagResult_tags ''docid_str'') ms of
          None \<Rightarrow> TagResult.DocIDString r = TagResult.DocIDString r0
        | Some j \<Rightarrow> \<forall>t. j = JString t \<longrightarrow> TagResult.DocIDString r = t"
  proof (rule unmarshal_members_last [OF _ _ run])
    fix name j x x'
    assume "\<not> names_field lib TagResult_tags ''docid_str'' name"
      and "unmarshal_TagResult_field lib name j x = Inr x'"
    then show "TagResult.DocIDString x' = TagResult.DocIDString x"
      by (rule TagResult_other_member_keeps_docid_str)
  next
    fix name j x x'
    assume "names_field lib TagResult_tags ''docid_str'' name"
      and "unmarshal_TagResult_field lib name j x = Inr x'"
    then show "\<forall>t. j = JString t \<longrightarrow> TagResult.DocIDString x' = t"
      by (auto simp add: TagResult_docid_str_member)
  qed
  with assms(2) show ?thesis by simp
qed

lemma TagResp_results_member:
  "names_field lib TagResp_tags ''results'' name \<Longrightarrow>
     unmarshal_TagResp_field lib name (JArray js) r = Inr r' \<Longrightarrow>
     \<exists>rs old. TagResp.Results r' = Some rs \<and>
       unmarshal_elems (unmarshal_TagResult lib) new_TagResult js old = Inr rs"
  by (auto simp add: names_field_def unmarshal_TagResp_field_def and_then_Inr
      unmarshal_slice_def split: option.splits if_splits)

lemma TagResp_other_member_keeps_results:
  "\<not> names_field lib TagResp_tags ''results'' name \<Longrightarrow>
     unmarshal_TagResp_field lib name j r = Inr r' \<Longrightarrow>
     TagResp.Results r' = TagResp.Results r"
  by (auto simp add: names_field_def unmarshal_TagResp_field_def and_then_Inr
      split: option.splits if_splits)

lemma TagResp_results_decoded:
  assumes "unmarshal_TagResp lib (JObject ms) r0 = Inr r"
    and "last_member (names_field lib TagResp_tags ''results'') ms = Some (JArray js)"
  shows "\<exists>rs. TagResp.Results r = Some rs \<and> length rs = length js \<and>
           (\<forall>i<length js. \<exists>x. unmarshal_TagResult lib (js ! i) x = Inr (rs ! i))"
proof -
  from assms(1) have run: "unmarshal_members (unmarshal_TagResp_field lib) ms r0 = Inr r"
    by (simp add: unmarshal_TagResp_def unmarshal_struct_def)
  have "case last_member (names_field lib TagResp_tags ''results'') ms of
          None \<Rightarrow> TagResp.Results r = TagResp.Results r0
        | Some j \<Rightarrow> \<forall>a. j = JArray a \<longrightarrow>
            (\<exists>rs old. TagResp.Results r = Some rs \<and>
               unmarshal_elems (unmarshal_TagResult lib) new_TagResult a old = Inr rs)"
  proof (rule unmarshal_members_last [OF _ _ run])
    fix name j x x'
    assume "\<not> names_field lib TagResp_tags ''results'' name"
      and "unmarshal_TagResp_field lib name j x = Inr x'"
    then show "TagResp.Results x' = TagResp.Results x"
      by (rule TagResp_other_member_keeps_results)
  next
    fix name j x x'
    assume "names_field lib TagResp_tags ''results'' name"
      and "unmarshal_TagResp_field lib name j x = Inr x'"
    then show "\<forall>a. j = JArray a \<longrightarrow>
        (\<exists>rs old. TagResp.Results x' = Some rs \<and>
           unmarshal_elems (unmarshal_TagResult lib) new_TagResult a old = Inr rs)"
      using TagResp_results_member by blast
  qed
  with assms(2) obtain rs old where
    "TagResp.Results r = Some rs"
    "unmarshal_elems (unmarshal_TagResult lib) new_TagResult js old = Inr rs"
    by auto
  with unmarshal_elems_nth [of "unmarshal_TagResult lib" new_TagResult js old rs]
  show ?thesis by simp
qed

text \<open>The same for a \<^verbatim>\<open>ColorResp\<close> and its results.\<close>

lemma ColorResp_Result_docid_member:
  "names_field lib ColorResp_Result_tags ''docid'' name \<Longrightarrow>
     unmarshal_ColorResp_Result_field lib name (JNumber (bigInt_String n)) r =
       Inr (r\<lparr>ColorResp_Result.DocID := Some n\<rparr>)"
  by (simp add: names_field_def unmarshal_ColorResp_Result_field_def unmarshal_bigInt_literal
      and_then_def)

lemma ColorResp_Result_other_member_keeps_docid:
  "\<not> names_field lib ColorResp_Result_tags ''docid'' name \<Longrightarrow>
     unmarshal_ColorResp_Result_field lib name j r = Inr r' \<Longrightarrow>
     ColorResp_Result.DocID r' = ColorResp_Result.DocID r"
  by (auto simp add: names_field_def unmarshal_ColorResp_Result_field_def and_then_Inr
      split: option.splits if_splits)

lemma ColorResp_Result_docid_str_member:
  "names_field lib ColorResp_Result_tags ''docid_str'' name \<Longrightarrow>
     unmarshal_ColorResp_Result_field lib name (JString s) r = Inr r' \<Longrightarrow>
     ColorResp_Result.DocIDString r' = s"
  by (auto simp add: names_field_def unmarshal_ColorResp_Result_field_def and_then_Inr
      unmarshal_string_JString split: option.splits if_splits)

lemma ColorResp_Result_other_member_keeps_docid_str:
  "\<not> names_field lib ColorResp_Result_tags ''docid_str'' name \<Longrightarrow>
     unmarshal_ColorResp_Result_field lib name j r = Inr r' \<Longrightarrow>
     ColorResp_Result.DocIDString r' = ColorResp_Result.DocIDString r"
  by (auto simp add: names_field_def unmarshal_ColorResp_Result_field_def and_then_Inr
      split: option.splits if_splits)

lemma ColorResp_Result_docid_decoded:
  assumes "unmarshal_ColorResp_Result lib (JObject ms) r0 = Inr r"
    and "last_member (names_field lib ColorResp_Result_tags ''docid'') ms =
           Some (JNumber (bigInt_String n))"
  shows "ColorResp_Result.DocID r = Some n"
proof -
  from assms(1) have run: "unmarshal_members (unmarshal_ColorResp_Result_field lib) ms r0 = Inr r"
    by (simp add: unmarshal_ColorResp_Result_def unmarshal_struct_def)
  have "case last_member (names_field lib ColorResp_Result_tags ''docid'') ms of
          None \<Rightarrow> ColorResp_Result.DocID r = ColorResp_Result.DocID r0
        | Some j \<Rightarrow> \<forall>k. j = JNumber (bigInt_String k) \<longrightarrow> ColorResp_Result.DocID r = Some k"
  proof (rule unmarshal_members_last [OF _ _ run])
    fix name j x x'
    assume "\<not> names_field lib ColorResp_Result_tags ''docid'' name"
      and "unmarshal_ColorResp_Result_field lib name j x = Inr x'"
    then show "ColorResp_Result.DocID x' = ColorResp_Result.DocID x"
      by (rule ColorResp_Result_other_member_keeps_docid)
  next
    fix name j x x'
    assume "names_field lib ColorResp_Result_tags ''docid'' name"
      and "unmarshal_ColorResp_Result_field lib name j x = Inr x'"
    then show "\<forall>k. j = JNumber (bigInt_String k) \<longrightarrow> ColorResp_Result.DocID x' = Some k"
      by (auto simp add: ColorResp_Result_docid_member)
  qed
  with assms(2) show ?thesis by simp
qed

lemma ColorResp_Result_docid_str_decoded:
  assumes "unmarshal_ColorResp_Result lib (JObject ms) r0 = Inr r"
    and "last_member (names_field lib ColorResp_Result_tags ''docid_str'') ms = Some (JString s)"
  shows "ColorResp_Result.DocIDString r = s"
proof -
  from assms(1) have run: "unmarshal_members (unmarshal_ColorResp_Result_field lib) ms r0 = Inr r"
    by (simp add: unmarshal_ColorResp_Result_def unmarshal_struct_def)
  have "case last_member (names_field lib ColorResp_Result_tags ''docid_str'') ms of
          None \<Rightarrow> ColorResp_Result.DocIDString r = ColorResp_Result.DocIDString r0
        | Some j \<Rightarrow> \<forall>t. j = JString t \<longrightarrow> ColorResp_Result.DocIDString r = t"
  proof (rule unmarshal_members_last [OF _ _ run])
    fix name j x x'
    assume "\<not> names_field lib ColorResp_Result_tags ''docid_str'' name"
      and "unmarshal_ColorResp_Result_field lib name j x = Inr x'"
    then show "ColorResp_Result.DocIDString x' = ColorResp_Result.DocIDString x"
      by (rule ColorResp_Result_other_member_keeps_docid_str)
  next
    fix name j x x'
    assume "names_field lib ColorResp_Result_tags ''docid_str'' name"
      and "unmarshal_ColorResp_Result_field lib name j x = Inr x'"
    then show "\<forall>t. j = JString t \<longrightarrow> ColorResp_Result.DocIDString x' = t"
      by (auto simp add: ColorResp_Result_docid_str_member)
  qed
  with assms(2) show ?thesis by simp
qed

lemma ColorResp_results_member:
  "names_field lib ColorResp_tags ''results'' name \<Longrightarrow>
     unmarshal_ColorResp_field lib name (JArray js) r = Inr r' \<Longrightarrow>
     \<exists>rs old. ColorResp.Results r' = Some rs \<and>
       unmarshal_elems (unmarshal_ColorResp_Result lib) new_ColorResp_Result js old = Inr rs"
  by (auto simp add: names_field_def unmarshal_ColorResp_field_def and_then_Inr
      unmarshal_slice_def split: option.splits if_splits)

lemma ColorResp_other_member_keeps_results:
  "\<not> names_field lib ColorResp_tags ''results'' name \<Longrightarrow>
     unmarshal_ColorResp_field lib name j r = Inr r' \<Longrightarrow>
     ColorResp.Results r' = ColorResp.Results r"
  by (auto simp add: names_field_def unmarshal_ColorResp_field_def and_then_Inr
      split: option.splits if_splits)

lemma ColorResp_results_decoded:
  assumes "unmarshal_ColorResp lib (JObject ms) r0 = Inr r"
    and "last_member (names_field lib ColorResp_tags ''results'') ms = Some (JArray js)"
  shows "\<exists>rs. ColorResp.Results r = Some rs \<and> length rs = length js \<and>
           (\<forall>i<length js. \<exists>x. unmarshal_ColorResp_Result lib (js ! i) x = Inr (rs ! i))"
proof -
  from assms(1) have run: "unmarshal_members (unmarshal_ColorResp_field lib) ms r0 = Inr r"
    by (simp add: unmarshal_ColorResp_def unmarshal_struct_def)
  have "case last_member (names_field lib ColorResp_tags ''results'') ms of
          None \<Rightarrow> ColorResp.Results r = ColorResp.Results r0
        | Some j \<Rightarrow> \<forall>a. j = JArray a \<longrightarrow>
            (\<exists>rs old. ColorResp.Results r = Some rs \<and>
               unmarshal_elems (unmarshal_ColorResp_Result lib) new_ColorResp_Result a old = Inr rs)"
  proof (rule unmarshal_members_last [OF _ _ run])
    fix name j x x'
    assume "\<not> names_field lib ColorResp_tags ''results'' name"
      and "unmarshal_ColorResp_field lib name j x = Inr x'"
    then show "ColorResp.Results x' = ColorResp.Results x"
      by (rule ColorResp_other_member_keeps_results)
  next
    fix name j x x'
    assume "names_field lib ColorResp_tags ''results'' name"
      and "unmarshal_ColorResp_field lib name j x = Inr x'"
    then show "\<forall>a. j = JArray a \<longrightarrow>
        (\<exists>rs old. ColorResp.Results x' = Some rs \<and>
           unmarshal_elems (unmarshal_ColorResp_Result lib) new_ColorResp_Result a old = Inr rs)"
      using ColorResp_results_member by blast
  qed
  with assms(2) obtain rs old where
    "ColorResp.Results r = Some rs"
    "unmarshal_elems (unmarshal_ColorResp_Result lib) new_ColorResp_Result js old = Inr rs"
    by auto
  with unmarshal_elems_nth [of "unmarshal_ColorResp_Result lib" new_ColorResp_Result js old rs]
  show ?thesis by simp
qed

text \<open>
  C5. Take any response document, a \<^verbatim>\<open>TagResp\<close> or a \<^verbatim>\<open>ColorResp\<close>, that decodes without
  error from any starting envelope, and any element of its results whose \<^verbatim>\<open>docid\<close> member
  (the last one, if there are several) is the integer literal of a number \<open>n\<close> above \<open>2^63\<close>.
  Then the decoded result at that index has \<open>n\<close> itself behind \<^verbatim>\<open>DocID\<close>, not \<open>n\<close> reduced to
  64 bits, whatever other members the element and the response have and in whatever
  order; and when the element carries a string under \<^verbatim>\<open>docid_str\<close>, \<^verbatim>\<open>DocIDString\<close> is that
  string. The member itself never fails: from any state of the struct it decodes to the
  struct with \<open>n\<close> behind \<^verbatim>\<open>DocID\<close>, so no identifier is too large to decode. The string
  form of \<open>n\<close> in decimal is \<open>bigInt_String n\<close>, which reads back as \<open>n\<close>
  (\<open>bigInt_UnmarshalText_String\<close>).
\<close>

theorem docid_beyond_int64_decoded_exactly:
  "2 ^ 63 < n \<longrightarrow>
     (names_field lib TagResult_tags ''docid'' tname \<longrightarrow>
        unmarshal_TagResult_field lib tname (JNumber (bigInt_String n)) tresult =
          Inr (tresult\<lparr>TagResult.DocID := Some n\<rparr>))
   \<and> (unmarshal_TagResp lib (JObject tmembers) tagres0 = Inr tagres \<and>
      last_member (names_field lib TagResp_tags ''results'') tmembers = Some (JArray tjs) \<and>
      i < length tjs \<and> tjs ! i = JObject tms \<and>
      last_member (names_field lib TagResult_tags ''docid'') tms =
        Some (JNumber (bigInt_String n)) \<longrightarrow>
        (\<exists>rs. TagResp.Results tagres = Some rs \<and> length rs = length tjs \<and>
           TagResult.DocID (rs ! i) = Some n \<and>
           (\<forall>s. last_member (names_field lib TagResult_tags ''docid_str'') tms =
                  Some (JString s) \<longrightarrow>
                TagResult.DocIDString (rs ! i) = s)))
   \<and> (names_field lib ColorResp_Result_tags ''docid'' cname \<longrightarrow>
        unmarshal_ColorResp_Result_field lib cname (JNumber (bigInt_String n)) cresult =
          Inr (cresult\<lparr>ColorResp_Result.DocID := Some n\<rparr>))
   \<and> (unmarshal_ColorResp lib (JObject cmembers) colorres0 = Inr colorres \<and>
      last_member (names_field lib ColorResp_tags ''results'') cmembers = Some (JArray cjs) \<and>
      k < length cjs \<and> cjs ! k = JObject cms \<and>
      last_member (names_field lib ColorResp_Result_tags ''docid'') cms =
        Some (JNumber (bigInt_String n)) \<longrightarrow>
        (\<exists>rs. ColorResp.Results colorres = Some rs \<and> length rs = length cjs \<and>
           ColorResp_Result.DocID (rs ! k) = Some n \<and>
           (\<forall>s. last_member (names_field lib ColorResp_Result_tags ''docid_str'') cms =
                  Some (JString s) \<longrightarrow>
                ColorResp_Result.DocIDString (rs ! k) = s)))"
proof (intro impI conjI)
  assume "names_field lib TagResult_tags ''docid'' tname"
  then show "unmarshal_TagResult_field lib tname (JNumber (bigInt_String n)) tresult =
      Inr (tresult\<lparr>TagResult.DocID := Some n\<rparr>)"
    by (rule TagResult_docid_member)
next
  assume "names_field lib ColorResp_Result_tags ''docid'' cname"
  then show "unmarshal_ColorResp_Result_field lib cname (JNumber (bigInt_String n)) cresult =
      Inr (cresult\<lparr>ColorResp_Result.DocID := Some n\<rparr>)"
    by (rule ColorResp_Result_docid_member)
next
  assume a: "unmarshal_TagResp lib (JObject tmembers) tagres0 = Inr tagres \<and>
      last_member (names_field lib TagResp_tags ''results'') tmembers = Some (JArray tjs) \<and>
      i < length tjs \<and> tjs ! i = JObject tms \<and>
      last_member (names_field lib TagResult_tags ''docid'') tms =
        Some (JNumber (bigInt_String n))"
  then obtain rs where rs: "TagResp.Results tagres = Some rs" "length rs = length tjs"
    and elems: "\<forall>i<length tjs. \<exists>x. unmarshal_TagResult lib (tjs ! i) x = Inr (rs ! i)"
    using TagResp_results_decoded [of lib tmembers tagres0 tagres tjs] by blast
  from a elems obtain x where x: "unmarshal_TagResult lib (JObject tms) x = Inr (rs ! i)"
    by force
  from a have "TagResult.DocID (rs ! i) = Some n"
    using TagResult_docid_decoded [OF x] by blast
  moreover have "\<forall>s. last_member (names_field lib TagResult_tags ''docid_str'') tms =
      Some (JString s) \<longrightarrow> TagResult.DocIDString (rs ! i) = s"
    using TagResult_docid_str_decoded [OF x] by blast
  ultimately show "\<exists>rs. TagResp.Results tagres = Some rs \<and> length rs = length tjs \<and>
      TagResult.DocID (rs ! i) = Some n \<and>
      (\<forall>s. last_member (names_field lib TagResult_tags ''docid_str'') tms =
             Some (JString s) \<longrightarrow>
           TagResult.DocIDString (rs ! i) = s)"
    using rs by blast
next
  assume a: "unmarshal_ColorResp lib (JObject cmembers) colorres0 = Inr colorres \<and>
      last_member (names_field lib ColorResp_tags ''results'') cmembers = Some (JArray cjs) \<and>
      k < length cjs \<and> cjs ! k = JObject cms \<and>
      last_member (names_field lib ColorResp_Result_tags ''docid'') cms =
        Some (JNumber (bigInt_String n))"
  then obtain rs where rs: "ColorResp.Results colorres = Some rs" "length rs = length cjs"
    and elems: "\<forall>i<length cjs. \<exists>x. unmarshal_ColorResp_Result lib (cjs ! i) x = Inr (rs ! i)"
    using ColorResp_results_decoded [of lib cmembers colorres0 colorres cjs] by blast
  from a elems obtain x where x: "unmarshal_ColorResp_Result lib (JObject cms) x = Inr (rs ! k)"
    by force
  from a have "ColorResp_Result.DocID (rs ! k) = Some n"
    using ColorResp_Result_docid_decoded [OF x] by blast
  moreover have "\<forall>s. last_member (names_field lib ColorResp_Result_tags ''docid_str'') cms =
      Some (JString s) \<longrightarrow> ColorResp_Result.DocIDString (rs ! k) = s"
    using ColorResp_Result_docid_str_decoded [OF x] by blast
  ultimately show "\<exists>rs. ColorResp.Results colorres = Some rs \<and> length rs = length cjs \<and>
      ColorResp_Result.DocID (rs ! k) = Some n \<and>
      (\<forall>s. last_member (names_field lib ColorResp_Result_tags ''docid_str'') cms =
             Some (JString s) \<longrightarrow>
           ColorResp_Result.DocIDString (rs ! k) = s)"
    using rs by blast
qed

text \<open>The two concrete responses decode, to the values expected.\<close>

lemma stub_library_field_named:
  "field_named stub_library tags name = (if name \<in> set tags then Some name else None)"
  by (induction tags) (auto simp add: field_named_def stub_library_def)

lemma stub_library_parseFloat: "parseFloat stub_library = stub_parseFloat"
  by (simp add: stub_library_def)

lemma big_docid_tag_response_decodes:
  "unmarshal_TagResp stub_library (JObject big_docid_tag_response) new_TagResp =
     Inr big_docid_tag_decoded"
  by (simp add: unmarshal_TagResp_def unmarshal_TagResp_field_def unmarshal_TagResult_def
      unmarshal_TagResult_field_def unmarshal_TagResult_Result_field_def
      unmarshal_TagResult_Result_Tag_field_def unmarshal_struct_def unmarshal_slice_def
      unmarshal_string_def unmarshal_float_def unmarshal_bigInt_def bigInt_UnmarshalText_def
      natural_literal_def is_digit_def and_then_def stub_library_field_named
      stub_library_parseFloat stub_parseFloat_def
      TagResp_tags_def TagResult_tags_def TagResult_Result_tags_def
      TagResult_Result_Tag_tags_def big_docid_tag_response_def big_docid_result_def
      big_docid_tag_decoded_def new_TagResp_def new_TagResult_def)

lemma big_docid_color_response_decodes:
  "unmarshal_ColorResp stub_library (JObject big_docid_color_response) new_ColorResp =
     Inr big_docid_color_decoded"
  by (simp add: unmarshal_ColorResp_def unmarshal_ColorResp_field_def
      unmarshal_ColorResp_Result_def unmarshal_ColorResp_Result_field_def
      unmarshal_Color_field_def unmarshal_Color_W3C_field_def unmarshal_struct_def
      unmarshal_slice_def unmarshal_string_def unmarshal_float_def unmarshal_bigInt_def
      bigInt_UnmarshalText_def natural_literal_def is_digit_def and_then_def
      stub_library_field_named stub_library_parseFloat stub_parseFloat_def
      ColorResp_tags_def ColorResp_Result_tags_def Color_tags_def Color_W3C_tags_def
      big_docid_color_response_def big_docid_color_result_def
      big_docid_color_decoded_def new_ColorResp_def new_ColorResp_Result_def new_Color_def)

theorem docid_beyond_int64_decoded_exactly_witness:
  "unmarshal_TagResp stub_library (JObject big_docid_tag_response) new_TagResp =
     Inr big_docid_tag_decoded
   \<and> unmarshal_TagResult_field stub_library ''docid'' (JNumber ''18446744073709551617'')
       new_TagResult =
     Inr (new_TagResult\<lparr>TagResult.DocID := Some 18446744073709551617\<rparr>)
   \<and> (\<exists>rs. TagResp.Results big_docid_tag_decoded = Some rs \<and> length rs = 1 \<and>
         TagResult.DocID (rs ! 0) = Some 18446744073709551617 \<and>
         TagResult.DocIDString (rs ! 0) = ''31fdb2316ff87fb5d747554ba5267313'')
   \<and> unmarshal_ColorResp stub_library (JObject big_docid_color_response) new_ColorResp =
     Inr big_docid_color_decoded
   \<and> unmarshal_ColorResp_Result_field stub_library ''docid''
       (JNumber ''18446744073709551617'') new_ColorResp_Result =
     Inr (new_ColorResp_Result\<lparr>ColorResp_Result.DocID := Some 18446744073709551617\<rparr>)
   \<and> (\<exists>rs. ColorResp.Results big_docid_color_decoded = Some rs \<and> length rs = 1 \<and>
         ColorResp_Result.DocID (rs ! 0) = Some 18446744073709551617 \<and>
         ColorResp_Result.DocIDString (rs ! 0) = ''31fdb2316ff87fb5d747554ba5267313'')"
proof -
  let ?n = "18446744073709551617 :: int"
  let ?s = "''31fdb2316ff87fb5d747554ba5267313''"
  have above: "2 ^ 63 < ?n"
    by simp
  have literal: "bigInt_String ?n = ''18446744073709551617''"
    by (simp add: bigInt_String_def decimal.simps digit_char_def)
  have names:
    "names_field stub_library TagResult_tags ''docid'' ''docid''"
    "names_field stub_library ColorResp_Result_tags ''docid'' ''docid''"
    by (simp_all add: names_field_def stub_library_field_named TagResult_tags_def
        ColorResp_Result_tags_def)
  have tag_results:
    "last_member (names_field stub_library TagResp_tags ''results'') big_docid_tag_response =
       Some (JArray [JObject big_docid_result])"
    by (simp add: names_field_def stub_library_field_named TagResp_tags_def
        big_docid_tag_response_def)
  have tag_docid:
    "last_member (names_field stub_library TagResult_tags ''docid'') big_docid_result =
       Some (JNumber (bigInt_String ?n))"
    "last_member (names_field stub_library TagResult_tags ''docid_str'') big_docid_result =
       Some (JString ?s)"
    unfolding literal
    by (simp_all add: names_field_def stub_library_field_named TagResult_tags_def
        big_docid_result_def)
  have color_results:
    "last_member (names_field stub_library ColorResp_tags ''results'')
       big_docid_color_response =
     Some (JArray [JObject big_docid_color_result])"
    by (simp add: names_field_def stub_library_field_named ColorResp_tags_def
        big_docid_color_response_def)
  have color_docid:
    "last_member (names_field stub_library ColorResp_Result_tags ''docid'')
       big_docid_color_result =
     Some (JNumber (bigInt_String ?n))"
    "last_member (names_field stub_library ColorResp_Result_tags ''docid_str'')
       big_docid_color_result =
     Some (JString ?s)"
    unfolding literal
    by (simp_all add: names_field_def stub_library_field_named ColorResp_Result_tags_def
        big_docid_color_result_def)
  have index: "(0::nat) < length [JObject big_docid_result]"
    "[JObject big_docid_result] ! 0 = JObject big_docid_result"
    "(0::nat) < length [JObject big_docid_color_result]"
    "[JObject big_docid_color_result] ! 0 = JObject big_docid_color_result"
    by simp_all
  note general =
    docid_beyond_int64_decoded_exactly
      [where n = ?n and lib = stub_library
        and tname = "''docid''" and tresult = new_TagResult
        and tmembers = big_docid_tag_response and ?tagres0.0 = new_TagResp
        and tagres = big_docid_tag_decoded and tjs = "[JObject big_docid_result]"
        and i = 0 and tms = big_docid_result
        and cname = "''docid''" and cresult = new_ColorResp_Result
        and cmembers = big_docid_color_response and ?colorres0.0 = new_ColorResp
        and colorres = big_docid_color_decoded and cjs = "[JObject big_docid_color_result]"
        and k = 0 and cms = big_docid_color_result]
  from general above names big_docid_tag_response_decodes big_docid_color_response_decodes
    tag_results tag_docid color_results color_docid index
  have "unmarshal_TagResult_field stub_library ''docid'' (JNumber (bigInt_String ?n))
          new_TagResult =
        Inr (new_TagResult\<lparr>TagResult.DocID := Some ?n\<rparr>)"
    and "\<exists>rs. TagResp.Results big_docid_tag_decoded = Some rs \<and>
           length rs = length [JObject big_docid_result] \<and>
           TagResult.DocID (rs ! 0) = Some ?n \<and> TagResult.DocIDString (rs ! 0) = ?s"
    and "unmarshal_ColorResp_Result_field stub_library ''docid''
          (JNumber (bigInt_String ?n)) new_ColorResp_Result =
        Inr (new_ColorResp_Result\<lparr>ColorResp_Result.DocID := Some ?n\<rparr>)"
    and "\<exists>rs. ColorResp.Results big_docid_color_decoded = Some rs \<and>
           length rs = length [JObject big_docid_color_result] \<and>
           ColorResp_Result.DocID (rs ! 0) = Some ?n \<and>
           ColorResp_Result.DocIDString (rs ! 0) = ?s"
    by blast+
  then show ?thesis
    using big_docid_tag_response_decodes big_docid_color_response_decodes
    unfolding literal by simp
qed

section \<open>The wire form of the requests\<close>

text \<open>
  C6. The request with the URLs \<^verbatim>\<open>a\<close>, \<^verbatim>\<open>b\<close> and the local identifiers \<^verbatim>\<open>1\<close>, \<^verbatim>\<open>2\<close> serialises to
  an object with the array of the URLs under \<^verbatim>\<open>url\<close> and the array of the identifiers under
  \<^verbatim>\<open>local_ids\<close>, each in the order of the request; decoding that object into a fresh
  \<^verbatim>\<open>TagRequest\<close> gives the request back, so the i-th identifier still stands with the i-th
  URL.
\<close>

theorem TagRequest_round_trip:
  "marshal_TagRequest
     \<lparr>TagRequest.URLs = Some [''a'', ''b''], TagRequest.LocalIDs = Some [''1'', ''2''],
      TagRequest.Model = []\<rparr> =
     JObject [(''url'', JArray [JString ''a'', JString ''b'']),
              (''local_ids'', JArray [JString ''1'', JString ''2''])]
   \<and> unmarshal_TagRequest
       (marshal_TagRequest
          \<lparr>TagRequest.URLs = Some [''a'', ''b''], TagRequest.LocalIDs = Some [''1'', ''2''],
           TagRequest.Model = []\<rparr>)
       new_TagRequest =
     Inr \<lparr>TagRequest.URLs = Some [''a'', ''b''], TagRequest.LocalIDs = Some [''1'', ''2''],
          TagRequest.Model = []\<rparr>"
  by (simp add: marshal_TagRequest_def marshal_strings_def omitempty_strings_def
      omitempty_string_def len_def unmarshal_TagRequest_def unmarshal_struct_def
      unmarshal_TagRequest_field_def unmarshal_slice_def unmarshal_string_def and_then_def
      new_TagRequest_def)

lemma omitempty_strings_names:
  "(k \<in> fst ` set (omitempty_strings name s)) = (k = name \<and> len s \<noteq> 0)"
  by (simp add: omitempty_strings_def)

lemma omitempty_string_names:
  "(k \<in> fst ` set (omitempty_string name s)) = (k = name \<and> s \<noteq> [])"
  by (simp add: omitempty_string_def)

text \<open>
  C8. In the serialised body an optional field that is unset (a nil slice, the empty
  string; a slice of length 0 counts too) has no member at all: its wire name is not
  among the member names of the object, so it is sent neither as \<^verbatim>\<open>null\<close> nor as an empty
  value. The \<^verbatim>\<open>url\<close> member of a \<^verbatim>\<open>TagRequest\<close> and of a \<^verbatim>\<open>ColorRequest\<close> is always there.
\<close>

theorem unset_optional_fields_omitted:
  "(len (TagRequest.LocalIDs treq) = 0 \<longrightarrow>
      ''local_ids'' \<notin> set (member_names (marshal_TagRequest treq)))
   \<and> (TagRequest.Model treq = [] \<longrightarrow>
      ''model'' \<notin> set (member_names (marshal_TagRequest treq)))
   \<and> ''url'' \<in> set (member_names (marshal_TagRequest treq))
   \<and> (len (ColorRequest.LocalIDs creq) = 0 \<longrightarrow>
      ''local_ids'' \<notin> set (member_names (marshal_ColorRequest creq)))
   \<and> ''url'' \<in> set (member_names (marshal_ColorRequest creq))
   \<and> (len (DocIDs form) = 0 \<longrightarrow>
      ''docids'' \<notin> set (member_names (marshal_FeedbackForm form)))
   \<and> (len (FeedbackForm.URLs form) = 0 \<longrightarrow>
      ''url'' \<notin> set (member_names (marshal_FeedbackForm form)))
   \<and> (len (AddTags form) = 0 \<longrightarrow>
      ''add_tags'' \<notin> set (member_names (marshal_FeedbackForm form)))
   \<and> (len (RemoveTags form) = 0 \<longrightarrow>
      ''remove_tags'' \<notin> set (member_names (marshal_FeedbackForm form)))
   \<and> (len (DissimilarDocIDs form) = 0 \<longrightarrow>
      ''dissimilar_docids'' \<notin> set (member_names (marshal_FeedbackForm form)))
   \<and> (len (SimilarDocIDs form) = 0 \<longrightarrow>
      ''similar_docids'' \<notin> set (member_names (marshal_FeedbackForm form)))
   \<and> (len (SearchClick form) = 0 \<longrightarrow>
      ''search_click'' \<notin> set (member_names (marshal_FeedbackForm form)))"
  by (simp add: member_names_def marshal_TagRequest_def marshal_ColorRequest_def
      marshal_FeedbackForm_def omitempty_strings_names omitempty_string_names)

theorem unset_optional_fields_omitted_witness:
  "''local_ids'' \<notin> set (member_names (marshal_TagRequest urls_only))
   \<and> ''model'' \<notin> set (member_names (marshal_TagRequest urls_only))
   \<and> ''url'' \<in> set (member_names (marshal_TagRequest urls_only))
   \<and> ''local_ids'' \<notin> set (member_names (marshal_ColorRequest one_url))
   \<and> ''url'' \<in> set (member_names (marshal_ColorRequest one_url))
   \<and> ''docids'' \<notin> set (member_names (marshal_FeedbackForm unset_form))
   \<and> ''url'' \<notin> set (member_names (marshal_FeedbackForm unset_form))
   \<and> ''add_tags'' \<notin> set (member_names (marshal_FeedbackForm unset_form))
   \<and> ''remove_tags'' \<notin> set (member_names (marshal_FeedbackForm unset_form))
   \<and> ''dissimilar_docids'' \<notin> set (member_names (marshal_FeedbackForm unset_form))
   \<and> ''similar_docids'' \<notin> set (member_names (marshal_FeedbackForm unset_form))
   \<and> ''search_click'' \<notin> set (member_names (marshal_FeedbackForm unset_form))"
proof -
  have unset:
    "len (TagRequest.LocalIDs urls_only) = 0" "TagRequest.Model urls_only = []"
    "len (ColorRequest.LocalIDs one_url) = 0"
    "len (DocIDs unset_form) = 0" "len (FeedbackForm.URLs unset_form) = 0"
    "len (AddTags unset_form) = 0" "len (RemoveTags unset_form) = 0"
    "len (DissimilarDocIDs unset_form) = 0" "len (SimilarDocIDs unset_form) = 0"
    "len (SearchClick unset_form) = 0"
    by (simp_all add: urls_only_def one_url_def unset_form_def len_def)
  show ?thesis
    using unset unset_optional_fields_omitted [of urls_only one_url unset_form]
    by blast
qed

end
